theory Spec2Isabelle
  imports Complex_Main
begin

section \<open>Python values, errors and the environment\<close>

text \<open>
  The exceptions the core raises. \<open>ValueError\<close> is raised by the constructors and by
  the deserialisers, \<open>IndexError\<close> by \<open>chain[-1]\<close> and \<open>chain[0]\<close> on an empty
  chain, \<open>RuntimeError\<close> only by \<open>Block.mine_block\<close> when the nonce space is
  exhausted, and \<open>OverflowError\<close> by \<open>float\<close> on an integer beyond the range of
  floats.
\<close>

datatype error = ValueError | IndexError | RuntimeError | OverflowError

text \<open>
  Numbers (amounts and timestamps) are exact rationals: the model identifies a float
  with the decimal it prints as, so \<open>float(Decimal(str(x)))\<close> is \<open>x\<close>. Not-a-number
  and the infinities are outside the model. Where the code rounds, in the subtraction
  of two float timestamps, the rounded result is a parameter.

  \<open>time.time()\<close> is an input of the environment. Its successive readings are a
  function \<open>clk\<close> from the number of readings made so far to the value read; a function
  that reads the clock takes that number and returns the new one.
\<close>

type_synonym clock = "nat \<Rightarrow> rat"

text \<open>A number of a decoded dictionary is an integer or a float.\<close>

datatype number = IntNum int | FloatNum rat

text \<open>\<open>Decimal(str(x))\<close>: the value of the number.\<close>

definition decimal_of :: "number \<Rightarrow> rat" where
  "decimal_of x = (case x of IntNum i \<Rightarrow> of_int i | FloatNum r \<Rightarrow> r)"

text \<open>
  \<open>float(x)\<close>. An integer that rounds to \<open>2^1024\<close> or beyond, that is one of
  magnitude \<open>2^1024 - 2^970\<close> or more, raises \<open>OverflowError\<close>. The integers that
  matter below are at most \<open>10^9\<close>, which floats represent exactly.
\<close>

definition float_of :: "number \<Rightarrow> error + rat" where
  "float_of x =
     (case x of
        FloatNum r \<Rightarrow> Inr r
      | IntNum i \<Rightarrow>
          if 2 ^ 1024 - 2 ^ 970 \<le> \<bar>i\<bar> then Inl OverflowError else Inr (of_int i))"

text \<open>\<open>a - b\<close> on floats: the rounded difference.\<close>

type_synonym float_sub = "rat \<Rightarrow> rat \<Rightarrow> rat"

text \<open>Truthiness of an \<open>Optional[str]\<close>: \<open>None\<close> and the empty string are falsy.\<close>

definition truthy_str :: "string option \<Rightarrow> bool" where
  "truthy_str s = (case s of None \<Rightarrow> False | Some v \<Rightarrow> v \<noteq> [])"

definition str_of :: "string option \<Rightarrow> string" where
  "str_of s = (case s of None \<Rightarrow> [] | Some v \<Rightarrow> v)"

text \<open>\<open>a or b\<close> on optional strings.\<close>

definition or_str :: "string option \<Rightarrow> string option \<Rightarrow> string option" where
  "or_str a b = (if truthy_str a then a else b)"

text \<open>\<open>timestamp or time.time()\<close>: \<open>None\<close> and zero are falsy and read the clock.\<close>

definition timestamp_or_now :: "clock \<Rightarrow> nat \<Rightarrow> rat option \<Rightarrow> rat \<times> nat" where
  "timestamp_or_now clk t ts =
     (case ts of
        None \<Rightarrow> (clk t, Suc t)
      | Some v \<Rightarrow> if v \<noteq> 0 then (v, t) else (clk t, Suc t))"

text \<open>\<open>s.startswith(target)\<close>.\<close>

definition startswith :: "string \<Rightarrow> string \<Rightarrow> bool" where
  "startswith s target = (take (length target) s = target)"

text \<open>\<open>'0' * difficulty\<close>: a non-positive count gives the empty string.\<close>

definition zeros :: "int \<Rightarrow> string" where
  "zeros d = replicate (nat d) (CHR ''0'')"

section \<open>Transaction\<close>

record Transaction =
  sender :: string
  recipient :: string
  amount :: rat
  tx_timestamp :: rat
  signature :: "string option"

text \<open>
  A transaction dictionary, as \<open>Transaction.from_dict\<close> reads it with \<open>data.get\<close>:
  an absent key and a null value both read as \<open>None\<close>. A value that is present has
  the type that the annotation of the constructor names for it (a string, a number); a
  dictionary with a value of another type is outside the model.
\<close>

record tx_dict =
  td_sender :: "string option"
  td_from :: "string option"
  td_recipient :: "string option"
  td_to :: "string option"
  td_amount :: "number option"
  td_timestamp :: "rat option"
  td_signature :: "string option"

definition MAX_AMOUNT :: rat where
  "MAX_AMOUNT = 1000000000"

definition MIN_AMOUNT :: rat where
  "MIN_AMOUNT = 1 / 100000000"

text \<open>\<open>Transaction.__init__\<close>. The clock is read only after every check has passed.\<close>

definition Transaction_init ::
  "clock \<Rightarrow> nat \<Rightarrow> string \<Rightarrow> string \<Rightarrow> rat \<Rightarrow> rat option \<Rightarrow> string option
     \<Rightarrow> error + (Transaction \<times> nat)" where
  "Transaction_init clk t sndr rcpt amt ts sg =
     (if sndr = [] then Inl ValueError
      else if rcpt = [] then Inl ValueError
      else if amt \<le> 0 then Inl ValueError
      else if amt < MIN_AMOUNT then Inl ValueError
      else if MAX_AMOUNT < amt then Inl ValueError
      else (case timestamp_or_now clk t ts of
              (ts', t') \<Rightarrow>
                Inr (\<lparr>sender = sndr, recipient = rcpt, amount = amt,
                      tx_timestamp = ts', signature = sg\<rparr>, t')))"

text \<open>\<open>Transaction.to_dict\<close>: the signature key is present only for a truthy signature.\<close>

definition tx_to_dict :: "Transaction \<Rightarrow> tx_dict" where
  "tx_to_dict tx =
     \<lparr>td_sender = Some (sender tx), td_from = None,
      td_recipient = Some (recipient tx), td_to = None,
      td_amount = Some (FloatNum (amount tx)), td_timestamp = Some (tx_timestamp tx),
      td_signature = (if truthy_str (signature tx) then signature tx else None)\<rparr>"

text \<open>
  \<open>Transaction.from_dict\<close>. The handler around the constructor call catches
  \<open>ValueError\<close> and \<open>InvalidOperation\<close> and raises \<open>ValueError\<close>; the
  \<open>OverflowError\<close> of \<open>float(amount)\<close>, evaluated as an argument of that call,
  passes through it.
\<close>

definition tx_from_dict :: "clock \<Rightarrow> nat \<Rightarrow> tx_dict \<Rightarrow> error + (Transaction \<times> nat)" where
  "tx_from_dict clk t d =
     (let sndr = or_str (td_sender d) (td_from d);
          rcpt = or_str (td_recipient d) (td_to d)
      in if \<not> truthy_str sndr \<or> \<not> truthy_str rcpt then Inl ValueError
         else (case td_amount d of
                 None \<Rightarrow> Inl ValueError
               | Some a \<Rightarrow>
                   if decimal_of a \<le> 0 then Inl ValueError
                   else (case float_of a of
                           Inl e \<Rightarrow> Inl e
                         | Inr amt \<Rightarrow>
                             Transaction_init clk t (str_of sndr) (str_of rcpt) amt
                               (td_timestamp d) (td_signature d))))"

text \<open>
  The RSA check of \<open>Transaction.verify\<close> is a parameter: it takes the sender (the
  public key), the dictionary without its signature (the signed payload) and the
  signature, and says whether \<open>pkcs1_15.verify\<close> passes; every exception there is
  \<open>False\<close>.
\<close>

type_synonym rsa = "string \<Rightarrow> tx_dict \<Rightarrow> string \<Rightarrow> bool"

definition verify :: "rsa \<Rightarrow> Transaction \<Rightarrow> bool" where
  "verify chk tx =
     (if sender tx = ''system'' then True
      else if \<not> truthy_str (signature tx) then False
      else if amount tx \<le> 0 \<or> amount tx < MIN_AMOUNT \<or> MAX_AMOUNT < amount tx then False
      else chk (sender tx) ((tx_to_dict tx)\<lparr>td_signature := None\<rparr>) (str_of (signature tx)))"

text \<open>
  \<open>Transaction.get_hash\<close>: SHA-256 of the key-sorted JSON of \<open>to_dict()\<close>. The digest
  of the encoding is a parameter.
\<close>

definition get_hash :: "(tx_dict \<Rightarrow> string) \<Rightarrow> Transaction \<Rightarrow> string" where
  "get_hash digest tx = digest (tx_to_dict tx)"

section \<open>Block\<close>

record Block =
  index :: int
  transactions :: "Transaction list"
  previous_hash :: string
  timestamp :: rat
  nonce :: int
  hash :: string

text \<open>
  A block dictionary. \<open>Block.from_dict\<close> tests each key for presence, so every field
  is optional; under a present \<open>timestamp\<close> or \<open>hash\<close> key the value may be null,
  as the constructor's \<open>Optional\<close> annotations allow. The other values have the
  types that the constructor's annotations name. The same type, with the \<open>hash\<close> key
  absent, is the dictionary that \<open>calculate_hash\<close> encodes.
\<close>

record block_dict =
  d_index :: "int option"
  d_timestamp :: "rat option option"
  d_previous_hash :: "string option"
  d_hash :: "string option option"
  d_nonce :: "int option"
  d_transactions :: "tx_dict list option"

text \<open>SHA-256 of the key-sorted JSON encoding of a block dictionary is a parameter.\<close>

type_synonym sha = "block_dict \<Rightarrow> string"

definition block_to_dict :: "Block \<Rightarrow> block_dict" where
  "block_to_dict b =
     \<lparr>d_index = Some (index b), d_timestamp = Some (Some (timestamp b)),
      d_previous_hash = Some (previous_hash b), d_hash = Some (Some (hash b)),
      d_nonce = Some (nonce b),
      d_transactions = Some (map tx_to_dict (transactions b))\<rparr>"

definition calculate_hash :: "sha \<Rightarrow> Block \<Rightarrow> string" where
  "calculate_hash H b = H ((block_to_dict b)\<lparr>d_hash := None\<rparr>)"

text \<open>
  \<open>Block.__init__\<close>: the fields are stored (reading the clock and computing the hash
  where none is given) before the arguments are validated.
\<close>

definition Block_init ::
  "sha \<Rightarrow> clock \<Rightarrow> nat \<Rightarrow> int \<Rightarrow> Transaction list \<Rightarrow> string \<Rightarrow> rat option \<Rightarrow> int
     \<Rightarrow> string option \<Rightarrow> error + (Block \<times> nat)" where
  "Block_init H clk t idx txs prev ts nc h =
     (case timestamp_or_now clk t ts of
        (ts', t') \<Rightarrow>
          let b0 = \<lparr>index = idx, transactions = txs, previous_hash = prev,
                    timestamp = ts', nonce = nc, hash = []\<rparr>;
              b = b0\<lparr>hash := (if truthy_str h then str_of h else calculate_hash H b0)\<rparr>
          in if idx < 0 then Inl ValueError
             else if length prev \<noteq> 64 then Inl ValueError
             else Inr (b, t'))"

definition max_nonce :: nat where
  "max_nonce = 2 ^ 32"

text \<open>
  The loop of \<open>Block.mine_block\<close> from nonce \<open>i\<close> on: each round stores the nonce and
  the recomputed hash in the block and returns when the hash starts with the target.
\<close>

function mine_from :: "sha \<Rightarrow> int \<Rightarrow> Block \<Rightarrow> nat \<Rightarrow> error + Block" where
  "mine_from H d b i =
     (if max_nonce \<le> i then Inl RuntimeError
      else let b1 = b\<lparr>nonce := int i\<rparr>;
               b2 = b1\<lparr>hash := calculate_hash H b1\<rparr>
           in if startswith (hash b2) (zeros d) then Inr b2
              else mine_from H d b2 (Suc i))"
  by pat_completeness auto
termination
  by (relation "measure (\<lambda>(H, d, b, i). max_nonce - i)") auto

declare mine_from.simps [simp del]

definition mine_block :: "sha \<Rightarrow> Block \<Rightarrow> int \<Rightarrow> error + Block" where
  "mine_block H b d = mine_from H d b 0"

text \<open>\<open>Block.is_valid\<close>.\<close>

definition is_valid :: "sha \<Rightarrow> rsa \<Rightarrow> Block \<Rightarrow> int \<Rightarrow> bool" where
  "is_valid H chk b d =
     (if calculate_hash H b \<noteq> hash b then False
      else if \<not> startswith (hash b) (zeros d) then False
      else list_all (verify chk) (transactions b))"

text \<open>
  \<open>Block.from_dict\<close>: the required keys are checked first; a transaction entry whose
  deserialisation raises \<open>ValueError\<close> is skipped, any other exception ends the
  call; the constructor runs last.
\<close>

fun txs_from_dicts :: "clock \<Rightarrow> nat \<Rightarrow> tx_dict list \<Rightarrow> error + (Transaction list \<times> nat)" where
  "txs_from_dicts clk t [] = Inr ([], t)"
| "txs_from_dicts clk t (d # ds) =
     (case tx_from_dict clk t d of
        Inl e \<Rightarrow> if e = ValueError then txs_from_dicts clk t ds else Inl e
      | Inr (tx, t') \<Rightarrow>
          (case txs_from_dicts clk t' ds of
             Inl e \<Rightarrow> Inl e
           | Inr (txs, t'') \<Rightarrow> Inr (tx # txs, t'')))"

definition block_from_dict :: "sha \<Rightarrow> clock \<Rightarrow> nat \<Rightarrow> block_dict \<Rightarrow> error + (Block \<times> nat)" where
  "block_from_dict H clk t d =
     (case (d_index d, d_timestamp d, d_previous_hash d, d_hash d, d_nonce d,
            d_transactions d) of
        (Some i, Some ts, Some p, Some h, Some n, Some tds) \<Rightarrow>
          (case txs_from_dicts clk t tds of
             Inl e \<Rightarrow> Inl e
           | Inr (txs, t') \<Rightarrow> Block_init H clk t' i txs p ts n h)
      | _ \<Rightarrow> Inl ValueError)"

section \<open>TransactionPool\<close>

record TransactionPool =
  pool_transactions :: "Transaction list"
  max_size :: int

text \<open>
  \<open>TransactionPool.add_transaction\<close> returns \<open>True\<close> when the transaction is
  appended and \<open>False\<close> otherwise, printing the reason. The outcome names the branch
  taken: only \<open>Added\<close> is a return of \<open>True\<close>.
\<close>

datatype add_outcome = Added | PoolFull | InvalidData | VerificationFailed | Duplicate

text \<open>The duplicate test of the loop over the pool.\<close>

definition same_transfer :: "Transaction \<Rightarrow> Transaction \<Rightarrow> bool" where
  "same_transfer tx tx' =
     (sender tx = sender tx' \<and> recipient tx = recipient tx' \<and> amount tx = amount tx'
      \<and> tx_timestamp tx = tx_timestamp tx')"

text \<open>The argument is a dictionary (\<open>Inl\<close>) or a transaction object (\<open>Inr\<close>).\<close>

definition pool_add_transaction ::
  "rsa \<Rightarrow> clock \<Rightarrow> nat \<Rightarrow> TransactionPool \<Rightarrow> tx_dict + Transaction
     \<Rightarrow> add_outcome \<times> TransactionPool" where
  "pool_add_transaction chk clk t pool x =
     (if max_size pool \<le> int (length (pool_transactions pool)) then (PoolFull, pool)
      else (case (case x of
                    Inl d \<Rightarrow> (case tx_from_dict clk t d of
                                Inl e \<Rightarrow> None
                              | Inr (tx, t') \<Rightarrow> Some tx)
                  | Inr tx \<Rightarrow> Some tx) of
              None \<Rightarrow> (InvalidData, pool)
            | Some tx \<Rightarrow>
                if \<not> verify chk tx then (VerificationFailed, pool)
                else if list_ex (\<lambda>e. same_transfer e tx) (pool_transactions pool)
                  then (Duplicate, pool)
                else (Added, pool\<lparr>pool_transactions := pool_transactions pool @ [tx]\<rparr>)))"

definition get_transactions :: "TransactionPool \<Rightarrow> Transaction list" where
  "get_transactions pool = pool_transactions pool"

definition remove_transactions :: "TransactionPool \<Rightarrow> Transaction list \<Rightarrow> TransactionPool" where
  "remove_transactions pool txs =
     (let tx_signatures = set (map signature (filter (\<lambda>tx. truthy_str (signature tx)) txs))
      in pool\<lparr>pool_transactions :=
                 filter (\<lambda>tx. signature tx \<notin> tx_signatures) (pool_transactions pool)\<rparr>)"

definition clear_transactions :: "TransactionPool \<Rightarrow> TransactionPool" where
  "clear_transactions pool = pool\<lparr>pool_transactions := []\<rparr>"

section \<open>Blockchain\<close>

record Blockchain =
  difficulty :: int
  mining_reward :: rat
  transaction_pool :: TransactionPool
  chain :: "Block list"

text \<open>
  \<open>block_time\<close> and \<open>difficulty_adjustment_interval\<close> are assigned once, in the
  constructor, and never again.
\<close>

definition block_time :: rat where
  "block_time = 10"

definition difficulty_adjustment_interval :: nat where
  "difficulty_adjustment_interval = 10"

definition get_latest_block :: "Blockchain \<Rightarrow> error + Block" where
  "get_latest_block bc = (case chain bc of [] \<Rightarrow> Inl IndexError | _ \<Rightarrow> Inr (last (chain bc)))"

text \<open>\<open>Blockchain._is_valid_block\<close>.\<close>

definition is_valid_block :: "sha \<Rightarrow> rsa \<Rightarrow> Blockchain \<Rightarrow> Block \<Rightarrow> error + bool" where
  "is_valid_block H chk bc b =
     (if index b \<noteq> int (length (chain bc)) then Inr False
      else (case get_latest_block bc of
              Inl e \<Rightarrow> Inl e
            | Inr tip \<Rightarrow>
                if previous_hash b \<noteq> hash tip then Inr False
                else if \<not> is_valid H chk b (difficulty bc) then Inr False
                else Inr True))"

text \<open>
  \<open>Blockchain.adjust_difficulty\<close>. Past the two guards the chain has more than ten
  blocks, so \<open>chain[-10]\<close> and the tip exist.
\<close>

definition adjust_difficulty :: "float_sub \<Rightarrow> Blockchain \<Rightarrow> Blockchain" where
  "adjust_difficulty fsub bc =
     (let n = length (chain bc) in
      if n mod difficulty_adjustment_interval \<noteq> 0 then bc
      else if n \<le> difficulty_adjustment_interval then bc
      else let prev_adjustment_block = chain bc ! (n - difficulty_adjustment_interval);
               time_expected = block_time * of_nat difficulty_adjustment_interval;
               time_taken = fsub (timestamp (last (chain bc))) (timestamp prev_adjustment_block)
           in if time_taken < time_expected / 2
                then bc\<lparr>difficulty := difficulty bc + 1\<rparr>
              else if time_expected * 2 < time_taken
                then (if 1 < difficulty bc then bc\<lparr>difficulty := difficulty bc - 1\<rparr> else bc)
              else bc)"

text \<open>\<open>Blockchain.add_block\<close>.\<close>

definition add_block ::
  "sha \<Rightarrow> rsa \<Rightarrow> float_sub \<Rightarrow> Blockchain \<Rightarrow> Block \<Rightarrow> error + (bool \<times> Blockchain)" where
  "add_block H chk fsub bc b =
     (if list_ex (\<lambda>existing_block. hash existing_block = hash b) (chain bc)
        then Inr (False, bc)
      else (case is_valid_block H chk bc b of
              Inl e \<Rightarrow> Inl e
            | Inr ok \<Rightarrow>
                if \<not> ok then Inr (False, bc)
                else Inr (True,
                       adjust_difficulty fsub
                         (bc\<lparr>chain := chain bc @ [b],
                             transaction_pool :=
                               remove_transactions (transaction_pool bc) (transactions b)\<rparr>))))"

text \<open>
  \<open>[Block.from_dict(block_data) for block_data in new_chain]\<close>: the first exception
  ends the comprehension.
\<close>

fun blocks_from_dicts :: "sha \<Rightarrow> clock \<Rightarrow> nat \<Rightarrow> block_dict list \<Rightarrow> error + (Block list \<times> nat)" where
  "blocks_from_dicts H clk t [] = Inr ([], t)"
| "blocks_from_dicts H clk t (d # ds) =
     (case block_from_dict H clk t d of
        Inl e \<Rightarrow> Inl e
      | Inr (b, t') \<Rightarrow>
          (case blocks_from_dicts H clk t' ds of
             Inl e \<Rightarrow> Inl e
           | Inr (bs, t'') \<Rightarrow> Inr (b # bs, t'')))"

text \<open>The duplicate scan of \<open>replace_chain\<close>, with the set of hashes seen so far.\<close>

fun has_duplicate :: "string set \<Rightarrow> Block list \<Rightarrow> bool" where
  "has_duplicate block_hashes [] = False"
| "has_duplicate block_hashes (b # bs) =
     (if hash b \<in> block_hashes then True
      else has_duplicate (insert (hash b) block_hashes) bs)"

text \<open>
  The loop of \<open>Blockchain._is_valid_chain\<close> at position \<open>i\<close>, with the block
  before it.
\<close>

fun check_blocks :: "sha \<Rightarrow> rsa \<Rightarrow> int \<Rightarrow> nat \<Rightarrow> Block \<Rightarrow> Block list \<Rightarrow> bool" where
  "check_blocks H chk d i previous [] = True"
| "check_blocks H chk d i previous (current # rest) =
     (if index current \<noteq> int i then False
      else if previous_hash current \<noteq> hash previous then False
      else if \<not> is_valid H chk current d then False
      else check_blocks H chk d (Suc i) current rest)"

definition is_valid_chain :: "sha \<Rightarrow> rsa \<Rightarrow> int \<Rightarrow> Block list \<Rightarrow> error + bool" where
  "is_valid_chain H chk d c =
     (case c of
        [] \<Rightarrow> Inl IndexError
      | g # rest \<Rightarrow>
          if index g \<noteq> 0 \<or> previous_hash g \<noteq> zeros 64 then Inr False
          else Inr (check_blocks H chk d 1 g rest))"

text \<open>\<open>Blockchain.replace_chain\<close>.\<close>

definition replace_chain ::
  "sha \<Rightarrow> rsa \<Rightarrow> clock \<Rightarrow> nat \<Rightarrow> Blockchain \<Rightarrow> block_dict list \<Rightarrow> error + (bool \<times> Blockchain)" where
  "replace_chain H chk clk t bc new_chain =
     (if new_chain = [] then Inr (False, bc)
      else (case blocks_from_dicts H clk t new_chain of
              Inl e \<Rightarrow> Inr (False, bc)
            | Inr (new_blocks, t') \<Rightarrow>
                if has_duplicate {} new_blocks then Inr (False, bc)
                else (case is_valid_chain H chk (difficulty bc) new_blocks of
                        Inl e \<Rightarrow> Inl e
                      | Inr ok \<Rightarrow>
                          if \<not> ok then Inr (False, bc)
                          else if length new_blocks \<le> length (chain bc) then Inr (False, bc)
                          else Inr (True, bc\<lparr>chain := new_blocks\<rparr>))))"

text \<open>
  \<open>Blockchain.mine_pending_transactions\<close>. The reward transaction and the new block
  read the clock. The result is the mined block, or \<open>None\<close>.
\<close>

definition mine_pending_transactions ::
  "sha \<Rightarrow> rsa \<Rightarrow> float_sub \<Rightarrow> clock \<Rightarrow> nat \<Rightarrow> Blockchain \<Rightarrow> string
     \<Rightarrow> error + (Block option \<times> Blockchain)" where
  "mine_pending_transactions H chk fsub clk t bc miner_address =
     (if pool_transactions (transaction_pool bc) = [] \<and> miner_address \<noteq> ''system''
        then Inr (None, bc)
      else (case (if miner_address \<noteq> ''system''
                  then (case Transaction_init clk t ''system'' miner_address
                               (mining_reward bc) None None of
                          Inl e \<Rightarrow> Inl e
                        | Inr (reward_tx, t') \<Rightarrow>
                            Inr (reward_tx # get_transactions (transaction_pool bc), t'))
                  else Inr (get_transactions (transaction_pool bc), t)) of
              Inl e \<Rightarrow> Inl e
            | Inr (txs, t1) \<Rightarrow>
                (case get_latest_block bc of
                   Inl e \<Rightarrow> Inl e
                 | Inr tip \<Rightarrow>
                     (case Block_init H clk t1 (int (length (chain bc))) txs (hash tip)
                             None 0 None of
                        Inl e \<Rightarrow> Inl e
                      | Inr (new_block, t2) \<Rightarrow>
                          (case mine_block H new_block (difficulty bc) of
                             Inl e \<Rightarrow> Inl e
                           | Inr mined \<Rightarrow>
                               (case add_block H chk fsub bc mined of
                                  Inl e \<Rightarrow> Inl e
                                | Inr (result, bc') \<Rightarrow>
                                    if result
                                    then Inr (Some mined,
                                           bc'\<lparr>transaction_pool :=
                                                 clear_transactions (transaction_pool bc')\<rparr>)
                                    else Inr (None, bc')))))))"

text \<open>
  \<open>Blockchain._create_genesis_block\<close> and \<open>Blockchain.__init__\<close>. Seeding the
  random module changes no state that the core reads. \<open>MINING_REWARD\<close> and
  \<open>MAX_TRANSACTION_POOL_SIZE\<close> come from the configuration module and are
  parameters.
\<close>

definition create_genesis_block ::
  "sha \<Rightarrow> clock \<Rightarrow> nat \<Rightarrow> string option \<Rightarrow> Blockchain \<Rightarrow> error + (Block \<times> Blockchain)" where
  "create_genesis_block H clk t seed bc =
     (case chain bc of
        g # rest \<Rightarrow> Inr (g, bc)
      | [] \<Rightarrow>
          (case Block_init H clk t 0 [] (zeros 64) (Some 1234567890) 0 None of
             Inl e \<Rightarrow> Inl e
           | Inr (genesis_block, t') \<Rightarrow>
               (case mine_block H genesis_block (difficulty bc) of
                  Inl e \<Rightarrow> Inl e
                | Inr mined \<Rightarrow> Inr (mined, bc\<lparr>chain := chain bc @ [mined]\<rparr>))))"

definition Blockchain_init ::
  "sha \<Rightarrow> clock \<Rightarrow> nat \<Rightarrow> rat \<Rightarrow> int \<Rightarrow> int \<Rightarrow> error + Blockchain" where
  "Blockchain_init H clk t MINING_REWARD MAX_TRANSACTION_POOL_SIZE d =
     (case create_genesis_block H clk t None
             \<lparr>difficulty = d, mining_reward = MINING_REWARD,
              transaction_pool =
                \<lparr>pool_transactions = [], max_size = MAX_TRANSACTION_POOL_SIZE\<rparr>,
              chain = []\<rparr> of
        Inl e \<Rightarrow> Inl e
      | Inr (g, bc) \<Rightarrow> Inr bc)"

section \<open>DHTNode\<close>

text \<open>
  A decoded JSON value, as \<open>json.loads\<close> returns it; an object is a dictionary,
  given by its items.
\<close>

datatype json =
  JNull | JBool bool | JNum rat | JStr string | JList "json list" | JObj "(string \<times> json) list"

text \<open>Python truthiness of a decoded value.\<close>

fun truthy :: "json \<Rightarrow> bool" where
  "truthy JNull = False"
| "truthy (JBool b) = b"
| "truthy (JNum n) = (n \<noteq> 0)"
| "truthy (JStr s) = (s \<noteq> [])"
| "truthy (JList xs) = (xs \<noteq> [])"
| "truthy (JObj kvs) = (kvs \<noteq> [])"

datatype message = NewBlock block_dict | NewTransaction tx_dict

text \<open>
  What one connection to a peer does: the connect, send or receive times out, the
  connection is refused, something else raises (a decoding error among them), the peer
  closes without data, or data arrives and decodes.
\<close>

datatype send_result =
  TimedOut | ConnectionRefused | OtherException | EmptyResponse | Response json

type_synonym address = "string \<times> int"

text \<open>
  The network is an input of the environment: what the \<open>k\<close>-th connection of a
  broadcast does, for the address and the message sent.
\<close>

type_synonym network = "nat \<Rightarrow> address \<Rightarrow> message \<Rightarrow> send_result"

text \<open>
  \<open>DHTNode._send_message_with_response\<close>: every exception is caught and answered with
  \<open>None\<close>. The decoded reply is printed with \<open>response.get('type')\<close> inside the same
  \<open>try\<close>, so a reply that is not a dictionary raises \<open>AttributeError\<close> there and is
  answered with \<open>None\<close> too.
\<close>

definition send_message_with_response :: "network \<Rightarrow> nat \<Rightarrow> address \<Rightarrow> message \<Rightarrow> json option" where
  "send_message_with_response net k addr msg =
     (case net k addr msg of
        Response r \<Rightarrow> (case r of JObj kvs \<Rightarrow> Some r | _ \<Rightarrow> None)
      | EmptyResponse \<Rightarrow> None
      | TimedOut \<Rightarrow> None
      | ConnectionRefused \<Rightarrow> None
      | OtherException \<Rightarrow> None)"

text \<open>The routing table is a dictionary, given by its items in insertion order.\<close>

record DHTNode =
  node_id :: string
  routing_table :: "(string \<times> address) list"

text \<open>\<open>self.routing_table.pop(node_id, None)\<close>.\<close>

definition pop :: "(string \<times> address) list \<Rightarrow> string \<Rightarrow> (string \<times> address) list" where
  "pop table key = filter (\<lambda>item. fst item \<noteq> key) table"

text \<open>
  The loop of \<open>DHTNode.broadcast_block\<close> over the snapshot of the items. Calling
  \<open>.get\<close> on a truthy response that is not a dictionary would raise
  \<open>AttributeError\<close>, the only exception that the \<open>try\<close> block could see, and its
  handler would remove the peer; \<open>send_message_with_response\<close> returns no such
  response.
\<close>

fun broadcast_loop ::
  "network \<Rightarrow> string \<Rightarrow> message \<Rightarrow> (string \<times> address) list \<Rightarrow> nat
     \<Rightarrow> (string \<times> address) list \<Rightarrow> nat \<Rightarrow> nat \<times> (string \<times> address) list" where
  "broadcast_loop net self msg [] k table success_count = (success_count, table)"
| "broadcast_loop net self msg ((peer_id, addr) # items) k table success_count =
     (if peer_id \<noteq> self then
        (case send_message_with_response net k addr msg of
           None \<Rightarrow> broadcast_loop net self msg items (Suc k) table success_count
         | Some response \<Rightarrow>
             if \<not> truthy response
               then broadcast_loop net self msg items (Suc k) table success_count
             else (case response of
                     JObj kvs \<Rightarrow>
                       if map_of kvs ''type'' = Some (JStr ''ack'')
                         then broadcast_loop net self msg items (Suc k) table (success_count + 1)
                       else broadcast_loop net self msg items (Suc k) table success_count
                   | _ \<Rightarrow>
                       broadcast_loop net self msg items (Suc k) (pop table peer_id)
                         success_count))
      else broadcast_loop net self msg items k table success_count)"

definition broadcast_block :: "network \<Rightarrow> DHTNode \<Rightarrow> Block \<Rightarrow> nat \<times> DHTNode" where
  "broadcast_block net node b =
     (case broadcast_loop net (node_id node) (NewBlock (block_to_dict b))
             (routing_table node) 0 (routing_table node) 0 of
        (success_count, table) \<Rightarrow> (success_count, node\<lparr>routing_table := table\<rparr>))"

section \<open>Example inputs\<close>

text \<open>
  Stand-ins for the parameters, used where a statement is evaluated at a concrete input.
  \<open>demo_sha\<close> gives a 64-character digest that starts with a zero for every nonce but
  0 and ends in a letter that tells block 0 from the others; \<open>stuck_sha\<close> never gives
  a leading zero.
\<close>

definition demo_sha :: sha where
  "demo_sha d =
     (if d_nonce d = Some 0 then CHR ''f'' else CHR ''0'') # replicate 62 (CHR ''0'')
       @ [if d_index d = Some 0 then CHR ''a'' else CHR ''b'']"

definition stuck_sha :: sha where
  "stuck_sha d = replicate 64 (CHR ''f'')"

definition demo_clock :: clock where
  "demo_clock n = 1700000000 + of_nat n"

definition demo_fsub :: float_sub where
  "demo_fsub a b = a - b"

definition demo_block :: Block where
  "demo_block =
     \<lparr>index = 0, transactions = [], previous_hash = zeros 64, timestamp = 1234567890,
      nonce = 0, hash = demo_sha \<lparr>d_index = Some 0, d_timestamp = Some (Some 1234567890),
        d_previous_hash = Some (zeros 64), d_hash = None, d_nonce = Some 0,
        d_transactions = Some []\<rparr>\<rparr>"

text \<open>
  A node at difficulty 1 whose chain is the genesis block that \<open>demo_sha\<close> mines, and
  whose pool holds one unsigned transaction of the system sender; the block that this
  node mines for \<open>miner\<close> when the clock first reads 1700000000.
\<close>

definition demo_genesis :: Block where
  "demo_genesis =
     demo_block\<lparr>nonce := 1, hash := calculate_hash demo_sha (demo_block\<lparr>nonce := 1\<rparr>)\<rparr>"

definition demo_reward_tx :: Transaction where
  "demo_reward_tx =
     \<lparr>sender = ''system'', recipient = ''miner'', amount = 50, tx_timestamp = 1700000000,
      signature = None\<rparr>"

definition pooled_system_tx :: Transaction where
  "pooled_system_tx =
     \<lparr>sender = ''system'', recipient = ''alice'', amount = 5, tx_timestamp = 1600000000,
      signature = None\<rparr>"

definition demo_unmined :: Block where
  "demo_unmined =
     \<lparr>index = 1, transactions = [demo_reward_tx, pooled_system_tx],
      previous_hash = hash demo_genesis, timestamp = 1700000001, nonce = 1, hash = []\<rparr>"

definition demo_mined :: Block where
  "demo_mined = demo_unmined\<lparr>hash := calculate_hash demo_sha demo_unmined\<rparr>"

definition demo_bc :: Blockchain where
  "demo_bc =
     \<lparr>difficulty = 1, mining_reward = 50,
      transaction_pool = \<lparr>pool_transactions = [pooled_system_tx], max_size = 100\<rparr>,
      chain = [demo_genesis]\<rparr>"

text \<open>
  The node that \<open>Blockchain.from_dict\<close> builds from a dictionary without blocks: it
  empties the chain of the node it has constructed and appends nothing.
\<close>

definition emptied_bc :: Blockchain where
  "emptied_bc =
     \<lparr>difficulty = 1, mining_reward = 50,
      transaction_pool = \<lparr>pool_transactions = [], max_size = 100\<rparr>, chain = []\<rparr>"

text \<open>
  A candidate chain of two blocks. The first has the shape of a genesis block, but its
  stored hash is 64 letters \<open>z\<close>, which is not the hash of its fields and has no
  leading zero, and it holds a transaction without signature from a sender that is not
  the system. The second is a valid block on top of it.
\<close>

definition unsigned_tx :: Transaction where
  "unsigned_tx =
     \<lparr>sender = ''alice'', recipient = ''mallory'', amount = 1000, tx_timestamp = 1600000000,
      signature = None\<rparr>"

definition forged_genesis :: Block where
  "forged_genesis =
     \<lparr>index = 0, transactions = [unsigned_tx], previous_hash = zeros 64,
      timestamp = 1234567890, nonce = 0, hash = replicate 64 (CHR ''z'')\<rparr>"

definition forged_unmined :: Block where
  "forged_unmined =
     \<lparr>index = 1, transactions = [], previous_hash = replicate 64 (CHR ''z''),
      timestamp = 1700000001, nonce = 1, hash = []\<rparr>"

definition forged_next :: Block where
  "forged_next = forged_unmined\<lparr>hash := calculate_hash demo_sha forged_unmined\<rparr>"

text \<open>
  A signature check that accepts the same signature bytes written in lower-case and in
  upper-case hexadecimal, as \<open>bytes.fromhex\<close> reads both.
\<close>

definition demo_rsa :: rsa where
  "demo_rsa key payload sg = (sg = ''ab'' \<or> sg = ''AB'')"

text \<open>
  A block whose only transaction carries the empty string as its signature, a
  transaction dictionary whose amount is the integer \<open>10^400\<close>, and one without an
  amount.
\<close>

definition empty_signature_tx :: Transaction where
  "empty_signature_tx =
     \<lparr>sender = ''alice'', recipient = ''bob'', amount = 5, tx_timestamp = 1600000000,
      signature = Some []\<rparr>"

definition empty_signature_block :: Block where
  "empty_signature_block =
     \<lparr>index = 1, transactions = [empty_signature_tx], previous_hash = zeros 64,
      timestamp = 1700000001, nonce = 0, hash = ''abc''\<rparr>"

definition overflow_dict :: tx_dict where
  "overflow_dict =
     \<lparr>td_sender = Some ''alice'', td_from = None, td_recipient = Some ''bob'', td_to = None,
      td_amount = Some (IntNum (10 ^ 400)), td_timestamp = Some 1600000000,
      td_signature = None\<rparr>"

definition no_amount_dict :: tx_dict where
  "no_amount_dict =
     \<lparr>td_sender = Some ''alice'', td_from = None, td_recipient = Some ''bob'', td_to = None,
      td_amount = None, td_timestamp = Some 1600000000, td_signature = None\<rparr>"

text \<open>
  Two transactions that differ only in the spelling of the signature, and a stand-in
  for the digest of \<open>get_hash\<close> that tells them apart.
\<close>

definition lower_sig_tx :: Transaction where
  "lower_sig_tx =
     \<lparr>sender = ''alice'', recipient = ''bob'', amount = 5, tx_timestamp = 1600000000,
      signature = Some ''ab''\<rparr>"

definition upper_sig_tx :: Transaction where
  "upper_sig_tx =
     \<lparr>sender = ''alice'', recipient = ''bob'', amount = 5, tx_timestamp = 1600000000,
      signature = Some ''AB''\<rparr>"

definition demo_digest :: "tx_dict \<Rightarrow> string" where
  "demo_digest d = str_of (td_signature d)"

definition demo_pool :: TransactionPool where
  "demo_pool = \<lparr>pool_transactions = [lower_sig_tx], max_size = 100\<rparr>"

text \<open>
  A node that knows three peers, and a network in which the second peer refuses the
  connection and every other peer acknowledges.
\<close>

definition demo_node :: DHTNode where
  "demo_node =
     \<lparr>node_id = ''node0'',
      routing_table =
        [(''peer1'', (''10.0.0.1'', 5000)), (''peer2'', (''10.0.0.2'', 5000)),
         (''peer3'', (''10.0.0.3'', 5000))]\<rparr>"

definition demo_net :: network where
  "demo_net k addr msg =
     (if addr = (''10.0.0.2'', 5000) then ConnectionRefused
      else Response (JObj [(''type'', JStr ''ack'')]))"

text \<open>Nonce \<open>j\<close> solves the proof-of-work puzzle of block \<open>b\<close> at difficulty \<open>d\<close>.\<close>

definition nonce_ok :: "sha \<Rightarrow> int \<Rightarrow> Block \<Rightarrow> nat \<Rightarrow> bool" where
  "nonce_ok H d b j = startswith (calculate_hash H (b\<lparr>nonce := int j\<rparr>)) (zeros d)"

text \<open>The spec's "hexadecimal character".\<close>

definition is_hex_digit :: "char \<Rightarrow> bool" where
  "is_hex_digit c = (c \<in> set ''0123456789abcdefABCDEF'')"

section \<open>Proof-of-work search\<close>

lemma calculate_hash_hash_upd [simp]: "calculate_hash H (b\<lparr>hash := h\<rparr>) = calculate_hash H b"
  by (simp add: calculate_hash_def block_to_dict_def)

lemma calculate_hash_hash_nonce_upd [simp]:
  "calculate_hash H (b\<lparr>hash := h, nonce := n\<rparr>) = calculate_hash H (b\<lparr>nonce := n\<rparr>)"
  by (simp add: calculate_hash_def block_to_dict_def)

lemma nonce_ok_upd [simp]: "nonce_ok H d (b\<lparr>nonce := n, hash := h\<rparr>) j = nonce_ok H d b j"
  by (simp add: nonce_ok_def calculate_hash_def block_to_dict_def)

lemma mine_from_Inr:
  "mine_from H d b i = Inr b' \<Longrightarrow>
     \<exists>j. i \<le> j \<and> j < max_nonce \<and> nonce_ok H d b j \<and> (\<forall>k. i \<le> k \<and> k < j \<longrightarrow> \<not> nonce_ok H d b k)
        \<and> b' = b\<lparr>nonce := int j, hash := calculate_hash H (b\<lparr>nonce := int j\<rparr>)\<rparr>"
proof (induction H d b i rule: mine_from.induct)
  case (1 H d b i)
  let ?b2 = "b\<lparr>nonce := int i, hash := calculate_hash H (b\<lparr>nonce := int i\<rparr>)\<rparr>"
  from "1.prems" have lt: "i < max_nonce"
    by (subst (asm) mine_from.simps) (simp split: if_splits)
  show ?case
  proof (cases "nonce_ok H d b i")
    case True
    with "1.prems" lt have "b' = ?b2"
      by (subst (asm) mine_from.simps) (simp add: Let_def nonce_ok_def)
    with True lt show ?thesis by auto
  next
    case False
    with "1.prems" lt have rec: "mine_from H d ?b2 (Suc i) = Inr b'"
      by (subst (asm) mine_from.simps) (simp add: Let_def nonce_ok_def)
    from False lt have "\<not> startswith (hash ?b2) (zeros d)" by (simp add: nonce_ok_def)
    from "1.IH"[OF _ refl refl this rec] lt
    obtain j where j: "Suc i \<le> j" "j < max_nonce" "nonce_ok H d b j"
      "\<forall>k. Suc i \<le> k \<and> k < j \<longrightarrow> \<not> nonce_ok H d b k"
      "b' = b\<lparr>nonce := int j, hash := calculate_hash H (b\<lparr>nonce := int j\<rparr>)\<rparr>"
      by auto
    have "\<forall>k. i \<le> k \<and> k < j \<longrightarrow> \<not> nonce_ok H d b k"
    proof (intro allI impI)
      fix k assume "i \<le> k \<and> k < j"
      then consider "k = i" | "Suc i \<le> k \<and> k < j" by linarith
      then show "\<not> nonce_ok H d b k" using False j(4) by cases auto
    qed
    with j show ?thesis by (intro exI[of _ j]) auto
  qed
qed

lemma mine_from_Inl:
  "mine_from H d b i = Inl e \<Longrightarrow>
     e = RuntimeError \<and> (\<forall>k. i \<le> k \<and> k < max_nonce \<longrightarrow> \<not> nonce_ok H d b k)"
proof (induction H d b i rule: mine_from.induct)
  case (1 H d b i)
  let ?b2 = "b\<lparr>nonce := int i, hash := calculate_hash H (b\<lparr>nonce := int i\<rparr>)\<rparr>"
  show ?case
  proof (cases "max_nonce \<le> i")
    case True
    with "1.prems" show ?thesis
      by (subst (asm) mine_from.simps) auto
  next
    case lt: False
    from "1.prems" lt have no: "\<not> nonce_ok H d b i"
      by (subst (asm) mine_from.simps) (auto simp: Let_def nonce_ok_def split: if_splits)
    with "1.prems" lt have rec: "mine_from H d ?b2 (Suc i) = Inl e"
      by (subst (asm) mine_from.simps) (simp add: Let_def nonce_ok_def)
    from no lt have "\<not> startswith (hash ?b2) (zeros d)" by (simp add: nonce_ok_def)
    from "1.IH"[OF _ refl refl this rec] lt
    have e: "e = RuntimeError" and rest: "\<forall>k. Suc i \<le> k \<and> k < max_nonce \<longrightarrow> \<not> nonce_ok H d b k"
      by auto
    have "\<forall>k. i \<le> k \<and> k < max_nonce \<longrightarrow> \<not> nonce_ok H d b k"
    proof (intro allI impI)
      fix k assume "i \<le> k \<and> k < max_nonce"
      then consider "k = i" | "Suc i \<le> k \<and> k < max_nonce" by linarith
      then show "\<not> nonce_ok H d b k" using no rest by cases auto
    qed
    with e show ?thesis by simp
  qed
qed

lemma startswith_leading_zeros:
  assumes "startswith s (zeros d)"
  shows "d \<le> int (length (takeWhile (\<lambda>c. c = CHR ''0'') s))"
proof -
  define n where "n = nat d"
  define r where "r = drop n s"
  from assms have tk: "take n s = replicate n (CHR ''0'')"
    by (simp add: startswith_def zeros_def n_def)
  have s: "s = replicate n (CHR ''0'') @ r"
    using tk append_take_drop_id[of n s] by (simp add: r_def)
  have "takeWhile (\<lambda>c. c = CHR ''0'') (replicate n (CHR ''0'') @ r)
      = replicate n (CHR ''0'') @ takeWhile (\<lambda>c. c = CHR ''0'') r"
    by (rule takeWhile_append2) simp
  then have "n \<le> length (takeWhile (\<lambda>c. c = CHR ''0'') s)"
    by (subst s) simp
  then show ?thesis by (simp add: n_def)
qed

lemma mine_from_found:
  assumes "i \<le> j" "j < max_nonce" "nonce_ok H d b j"
    "\<forall>k. i \<le> k \<and> k < j \<longrightarrow> \<not> nonce_ok H d b k"
  shows "mine_from H d b i = Inr (b\<lparr>nonce := int j, hash := calculate_hash H (b\<lparr>nonce := int j\<rparr>)\<rparr>)"
proof (cases "mine_from H d b i")
  case (Inl e)
  from mine_from_Inl[OF Inl] assms show ?thesis by blast
next
  case (Inr b')
  from mine_from_Inr[OF Inr] obtain j' where j': "i \<le> j'" "j' < max_nonce" "nonce_ok H d b j'"
    "\<forall>k. i \<le> k \<and> k < j' \<longrightarrow> \<not> nonce_ok H d b k"
    "b' = b\<lparr>nonce := int j', hash := calculate_hash H (b\<lparr>nonce := int j'\<rparr>)\<rparr>"
    by blast
  have "\<not> j' < j" using assms(4) j'(1,3) by blast
  moreover have "\<not> j < j'" using j'(4) assms(1,3) by blast
  ultimately have "j' = j" by linarith
  with Inr j'(5) show ?thesis by simp
qed

lemma length_demo_sha: "length (demo_sha d) = 64"
  by (simp add: demo_sha_def)

lemma startswith_demo_sha: "startswith (demo_sha d) (zeros 1) \<longleftrightarrow> d_nonce d \<noteq> Some 0"
  by (simp add: demo_sha_def startswith_def zeros_def)

lemma nonce_ok_demo: "nonce_ok demo_sha 1 b j \<longleftrightarrow> j \<noteq> 0"
  by (simp add: nonce_ok_def calculate_hash_def block_to_dict_def startswith_demo_sha)

lemma mine_block_demo:
  "mine_block demo_sha b 1 = Inr (b\<lparr>nonce := 1, hash := calculate_hash demo_sha (b\<lparr>nonce := 1\<rparr>)\<rparr>)"
  using mine_from_found[of 0 1 demo_sha 1 b]
  by (simp add: mine_block_def nonce_ok_demo max_nonce_def)

lemma nonce_ok_int:
  "0 \<le> n \<Longrightarrow> startswith (calculate_hash H (b\<lparr>nonce := n\<rparr>)) (zeros d) = nonce_ok H d b (nat n)"
  by (simp add: nonce_ok_def)

text \<open>
  Claim C3. When \<open>mine_block\<close> returns, the stored hash is the hash recomputed from the
  block's fields, it has at least \<open>d\<close> leading zero characters, and the nonce is the
  least one from 0 upward whose hash starts with the target, below \<open>2^32\<close>; only the
  nonce and the hash of the block have changed. The call fails exactly when no nonce
  below \<open>2^32\<close> gives such a hash, and then with \<open>RuntimeError\<close>, which nothing else
  in the core raises.
\<close>

theorem mine_block_finds_least_nonce:
  "(\<forall>b'. mine_block H b d = Inr b' \<longrightarrow>
        hash b' = calculate_hash H b'
      \<and> d \<le> int (length (takeWhile (\<lambda>c. c = CHR ''0'') (hash b')))
      \<and> 0 \<le> nonce b' \<and> nonce b' < 2 ^ 32
      \<and> (\<forall>n. 0 \<le> n \<and> n < nonce b'
             \<longrightarrow> \<not> startswith (calculate_hash H (b\<lparr>nonce := n\<rparr>)) (zeros d))
      \<and> b' = b\<lparr>nonce := nonce b', hash := hash b'\<rparr>)
   \<and> (mine_block H b d = Inl RuntimeError \<longleftrightarrow>
        (\<forall>n. 0 \<le> n \<and> n < 2 ^ 32
             \<longrightarrow> \<not> startswith (calculate_hash H (b\<lparr>nonce := n\<rparr>)) (zeros d)))
   \<and> (\<forall>e. mine_block H b d = Inl e \<longrightarrow> e = RuntimeError)"
proof -
  have found: "hash b' = calculate_hash H b'
      \<and> d \<le> int (length (takeWhile (\<lambda>c. c = CHR ''0'') (hash b')))
      \<and> 0 \<le> nonce b' \<and> nonce b' < 2 ^ 32
      \<and> (\<forall>n. 0 \<le> n \<and> n < nonce b'
             \<longrightarrow> \<not> startswith (calculate_hash H (b\<lparr>nonce := n\<rparr>)) (zeros d))
      \<and> b' = b\<lparr>nonce := nonce b', hash := hash b'\<rparr>"
    if r: "mine_block H b d = Inr b'" for b'
  proof -
    from r obtain j where j: "j < max_nonce" "nonce_ok H d b j"
      "\<forall>k. k < j \<longrightarrow> \<not> nonce_ok H d b k"
      "b' = b\<lparr>nonce := int j, hash := calculate_hash H (b\<lparr>nonce := int j\<rparr>)\<rparr>"
      using mine_from_Inr[of H d b 0 b'] by (auto simp: mine_block_def)
    have 1: "hash b' = calculate_hash H b'" using j(4) by simp
    have "startswith (hash b') (zeros d)" using j(2,4) by (simp add: nonce_ok_def)
    then have 2: "d \<le> int (length (takeWhile (\<lambda>c. c = CHR ''0'') (hash b')))"
      by (rule startswith_leading_zeros)
    have 3: "0 \<le> nonce b'" "nonce b' < 2 ^ 32" using j(1,4) by (simp_all add: max_nonce_def)
    have 4: "b' = b\<lparr>nonce := nonce b', hash := hash b'\<rparr>" using j(4) by simp
    have 5: "\<not> startswith (calculate_hash H (b\<lparr>nonce := n\<rparr>)) (zeros d)"
      if n: "0 \<le> n \<and> n < nonce b'" for n
    proof -
      from n have "nat n < j" using j(4) by (simp add: nat_less_iff)
      with j(3) have "\<not> nonce_ok H d b (nat n)" by blast
      with n show ?thesis by (simp add: nonce_ok_int)
    qed
    from 1 2 3 4 5 show ?thesis by blast
  qed
  have only: "e = RuntimeError" if "mine_block H b d = Inl e" for e
    using that mine_from_Inl[of H d b 0 e] by (simp add: mine_block_def)
  have exhausted: "mine_block H b d = Inl RuntimeError \<longleftrightarrow>
        (\<forall>n. 0 \<le> n \<and> n < 2 ^ 32
             \<longrightarrow> \<not> startswith (calculate_hash H (b\<lparr>nonce := n\<rparr>)) (zeros d))"
  proof
    assume r: "mine_block H b d = Inl RuntimeError"
    show "\<forall>n. 0 \<le> n \<and> n < 2 ^ 32
             \<longrightarrow> \<not> startswith (calculate_hash H (b\<lparr>nonce := n\<rparr>)) (zeros d)"
    proof (intro allI impI)
      fix n :: int assume n: "0 \<le> n \<and> n < 2 ^ 32"
      then have "nat n < max_nonce" by (simp add: max_nonce_def nat_less_iff)
      with mine_from_Inl[of H d b 0 RuntimeError] r have "\<not> nonce_ok H d b (nat n)"
        by (simp add: mine_block_def)
      with n show "\<not> startswith (calculate_hash H (b\<lparr>nonce := n\<rparr>)) (zeros d)"
        by (simp add: nonce_ok_int)
    qed
  next
    assume none: "\<forall>n. 0 \<le> n \<and> n < 2 ^ 32
       \<longrightarrow> \<not> startswith (calculate_hash H (b\<lparr>nonce := n\<rparr>)) (zeros d)"
    show "mine_block H b d = Inl RuntimeError"
    proof (cases "mine_block H b d")
      case (Inl e)
      with only show ?thesis by simp
    next
      case (Inr b')
      then obtain j where j: "j < max_nonce" "nonce_ok H d b j"
        using mine_from_Inr[of H d b 0 b'] by (auto simp: mine_block_def)
      from j(1) have "0 \<le> int j \<and> int j < 2 ^ 32" by (simp add: max_nonce_def)
      with none have "\<not> startswith (calculate_hash H (b\<lparr>nonce := int j\<rparr>)) (zeros d)" by blast
      with j(2) show ?thesis by (simp add: nonce_ok_def)
    qed
  qed
  from found only exhausted show ?thesis by blast
qed

text \<open>
  Both outcomes occur: with \<open>demo_sha\<close> the search passes nonce 0 and stops at nonce 1;
  with \<open>stuck_sha\<close> it is exhausted.
\<close>

lemma stuck_sha_never: "\<not> startswith (stuck_sha x) (zeros 1)"
  by (simp add: stuck_sha_def startswith_def zeros_def)

theorem mine_block_finds_least_nonce_witness:
  "mine_block demo_sha demo_block 1
     = Inr (demo_block\<lparr>nonce := 1, hash := calculate_hash demo_sha (demo_block\<lparr>nonce := 1\<rparr>)\<rparr>)
   \<and> (1::int) \<le> int (length (takeWhile (\<lambda>c. c = CHR ''0'')
                (calculate_hash demo_sha (demo_block\<lparr>nonce := 1\<rparr>))))
   \<and> \<not> startswith (calculate_hash demo_sha (demo_block\<lparr>nonce := 0\<rparr>)) (zeros 1)
   \<and> mine_block stuck_sha demo_block 1 = Inl RuntimeError"
proof -
  have m: "mine_block demo_sha demo_block 1
     = Inr (demo_block\<lparr>nonce := 1, hash := calculate_hash demo_sha (demo_block\<lparr>nonce := 1\<rparr>)\<rparr>)"
    by (rule mine_block_demo)
  have s: "\<forall>n. 0 \<le> n \<and> n < 2 ^ 32
     \<longrightarrow> \<not> startswith (calculate_hash stuck_sha (demo_block\<lparr>nonce := n\<rparr>)) (zeros 1)"
    by (simp add: calculate_hash_def stuck_sha_never)
  from mine_block_finds_least_nonce[of demo_sha demo_block 1] m
  have "(1::int) \<le> int (length (takeWhile (\<lambda>c. c = CHR ''0'')
                (calculate_hash demo_sha (demo_block\<lparr>nonce := 1\<rparr>))))"
    and "\<not> startswith (calculate_hash demo_sha (demo_block\<lparr>nonce := 0\<rparr>)) (zeros 1)"
    by simp_all
  moreover from mine_block_finds_least_nonce[of stuck_sha demo_block 1] s
  have "mine_block stuck_sha demo_block 1 = Inl RuntimeError" by blast
  ultimately show ?thesis using m by simp
qed

section \<open>Block construction\<close>

text \<open>
  Claim C7, as stated, fails: a previous hash of 64 letters \<open>z\<close> is no hexadecimal
  string, and the constructor returns the block.
\<close>

theorem Block_init_accepts_non_hex_counterexample:
  "length (replicate 64 (CHR ''z'')) = 64
   \<and> \<not> list_all is_hex_digit (replicate 64 (CHR ''z''))
   \<and> Block_init demo_sha demo_clock 0 0 [] (replicate 64 (CHR ''z'')) (Some 1234567890) 0 None
       = Inr (\<lparr>index = 0, transactions = [], previous_hash = replicate 64 (CHR ''z''),
               timestamp = 1234567890, nonce = 0,
               hash = calculate_hash demo_sha
                 \<lparr>index = 0, transactions = [], previous_hash = replicate 64 (CHR ''z''),
                  timestamp = 1234567890, nonce = 0, hash = []\<rparr>\<rparr>, 0)"
  by (simp add: Block_init_def timestamp_or_now_def truthy_str_def Let_def is_hex_digit_def
      list_all_iff)

text \<open>
  Claim C7, amended. Block construction raises \<open>ValueError\<close> exactly when the index is
  negative or the previous hash is not 64 characters long; which characters they are is
  not looked at.
\<close>

theorem Block_init_checks_length_only:
  "(Block_init H clk t idx txs prev ts nc h = Inl ValueError \<longleftrightarrow> idx < 0 \<or> length prev \<noteq> 64)
   \<and> (\<forall>e. Block_init H clk t idx txs prev ts nc h = Inl e \<longrightarrow> e = ValueError)"
  by (auto simp: Block_init_def Let_def split: prod.splits if_splits)

text \<open>A 63-character previous hash is refused, 64 letters \<open>z\<close> are not.\<close>

theorem Block_init_checks_length_only_witness:
  "Block_init demo_sha demo_clock 0 0 [] (replicate 63 (CHR ''0'')) (Some 1234567890) 0 None
     = Inl ValueError
   \<and> Block_init demo_sha demo_clock 0 0 [] (replicate 64 (CHR ''z'')) (Some 1234567890) 0 None
     \<noteq> Inl ValueError"
  using Block_init_checks_length_only[of demo_sha demo_clock 0 0 "[]" "replicate 63 (CHR ''0'')"
          "Some 1234567890" 0 None]
        Block_init_checks_length_only[of demo_sha demo_clock 0 0 "[]" "replicate 64 (CHR ''z'')"
          "Some 1234567890" 0 None]
  by simp

section \<open>Genesis\<close>

lemma length_zeros_64 [simp]: "length (zeros 64) = 64"
  by (simp add: zeros_def)

lemma Blockchain_init_eq:
  "Blockchain_init H clk t R M d =
     (case mine_block H
             \<lparr>index = 0, transactions = [], previous_hash = zeros 64, timestamp = 1234567890,
              nonce = 0,
              hash = calculate_hash H
                \<lparr>index = 0, transactions = [], previous_hash = zeros 64,
                 timestamp = 1234567890, nonce = 0, hash = []\<rparr>\<rparr> d of
        Inl e \<Rightarrow> Inl e
      | Inr g \<Rightarrow>
          Inr \<lparr>difficulty = d, mining_reward = R,
               transaction_pool = \<lparr>pool_transactions = [], max_size = M\<rparr>, chain = [g]\<rparr>)"
  by (simp add: Blockchain_init_def create_genesis_block_def Block_init_def
      timestamp_or_now_def truthy_str_def Let_def split: sum.splits)

lemma mine_block_fields:
  assumes "mine_block H b d = Inr g"
  shows "index g = index b \<and> timestamp g = timestamp b \<and> previous_hash g = previous_hash b
    \<and> transactions g = transactions b \<and> hash g = calculate_hash H g
    \<and> startswith (hash g) (zeros d)"
proof -
  from assms obtain j where "nonce_ok H d b j"
    "g = b\<lparr>nonce := int j, hash := calculate_hash H (b\<lparr>nonce := int j\<rparr>)\<rparr>"
    using mine_from_Inr[of H d b 0 g] by (auto simp: mine_block_def)
  then show ?thesis by (simp add: nonce_ok_def)
qed

text \<open>
  Claim C8. Two constructions of a \<open>Blockchain\<close> with the same initial difficulty,
  whatever their clocks, the number of clock readings made before, and their
  configured reward and pool size, either both fail in mining or both produce the same
  one-block chain, hence the same genesis hash. That block has index 0, the fixed
  timestamp, the 64-zero previous hash and no transactions, and it satisfies the
  proof-of-work condition of the difficulty.
\<close>

theorem genesis_hash_deterministic:
  "map_sum id (\<lambda>bc. map hash (chain bc)) (Blockchain_init H clk t R M d)
     = map_sum id (\<lambda>bc. map hash (chain bc)) (Blockchain_init H clk' t' R' M' d)
   \<and> map_sum id chain (Blockchain_init H clk t R M d)
     = map_sum id chain (Blockchain_init H clk' t' R' M' d)
   \<and> (\<forall>bc. Blockchain_init H clk t R M d = Inr bc \<longrightarrow>
         (\<exists>g. chain bc = [g] \<and> index g = 0 \<and> timestamp g = 1234567890
            \<and> previous_hash g = zeros 64 \<and> transactions g = []
            \<and> hash g = calculate_hash H g \<and> startswith (hash g) (zeros d)))"
proof (intro conjI allI impI)
  show "map_sum id (\<lambda>bc. map hash (chain bc)) (Blockchain_init H clk t R M d)
     = map_sum id (\<lambda>bc. map hash (chain bc)) (Blockchain_init H clk' t' R' M' d)"
    by (simp add: Blockchain_init_eq split: sum.splits)
  show "map_sum id chain (Blockchain_init H clk t R M d)
     = map_sum id chain (Blockchain_init H clk' t' R' M' d)"
    by (simp add: Blockchain_init_eq split: sum.splits)
  fix bc assume a: "Blockchain_init H clk t R M d = Inr bc"
  let ?b = "\<lparr>index = 0, transactions = [], previous_hash = zeros 64, timestamp = 1234567890,
              nonce = 0,
              hash = calculate_hash H
                \<lparr>index = 0, transactions = [], previous_hash = zeros 64,
                 timestamp = 1234567890, nonce = 0, hash = []\<rparr>\<rparr>"
  from a obtain g where g: "mine_block H ?b d = Inr g" "chain bc = [g]"
    by (auto simp: Blockchain_init_eq split: sum.splits)
  have "index g = 0 \<and> timestamp g = 1234567890
            \<and> previous_hash g = zeros 64 \<and> transactions g = []
            \<and> hash g = calculate_hash H g \<and> startswith (hash g) (zeros d)"
    using mine_block_fields[OF g(1)] by auto
  then show "\<exists>g. chain bc = [g] \<and> index g = 0 \<and> timestamp g = 1234567890
            \<and> previous_hash g = zeros 64 \<and> transactions g = []
            \<and> hash g = calculate_hash H g \<and> startswith (hash g) (zeros d)"
    using g(2) by blast
qed

text \<open>With \<open>demo_sha\<close> at difficulty 1 every construction gives \<open>demo_genesis\<close>.\<close>

lemma demo_block_eq:
  "\<lparr>index = 0, transactions = [], previous_hash = zeros 64, timestamp = 1234567890,
              nonce = 0,
              hash = calculate_hash demo_sha
                \<lparr>index = 0, transactions = [], previous_hash = zeros 64,
                 timestamp = 1234567890, nonce = 0, hash = []\<rparr>\<rparr> = demo_block"
  by (simp add: demo_block_def calculate_hash_def block_to_dict_def)

lemma Blockchain_init_demo:
  "Blockchain_init demo_sha clk t R M 1 =
     Inr \<lparr>difficulty = 1, mining_reward = R,
          transaction_pool = \<lparr>pool_transactions = [], max_size = M\<rparr>, chain = [demo_genesis]\<rparr>"
  by (simp add: Blockchain_init_eq demo_block_eq mine_block_demo demo_genesis_def)

theorem genesis_hash_deterministic_witness:
  "Blockchain_init demo_sha demo_clock 0 50 100 1 =
     Inr \<lparr>difficulty = 1, mining_reward = 50,
          transaction_pool = \<lparr>pool_transactions = [], max_size = 100\<rparr>, chain = [demo_genesis]\<rparr>
   \<and> map_sum id (\<lambda>bc. map hash (chain bc)) (Blockchain_init demo_sha (\<lambda>n. 7) 3 25 10 1)
       = Inr [hash demo_genesis]
   \<and> index demo_genesis = 0 \<and> timestamp demo_genesis = 1234567890
   \<and> previous_hash demo_genesis = zeros 64 \<and> transactions demo_genesis = []"
  using genesis_hash_deterministic[of demo_sha demo_clock 0 50 100 1 "\<lambda>n. 7" 3 25 10]
  by (simp add: Blockchain_init_demo)

section \<open>Appending a block\<close>

lemma adjust_difficulty_frame [simp]:
  "chain (adjust_difficulty fsub bc) = chain bc"
  "transaction_pool (adjust_difficulty fsub bc) = transaction_pool bc"
  "mining_reward (adjust_difficulty fsub bc) = mining_reward bc"
  by (simp_all add: adjust_difficulty_def Let_def)

lemma get_latest_block_nonempty:
  "chain bc \<noteq> [] \<Longrightarrow> get_latest_block bc = Inr (last (chain bc))"
  by (cases "chain bc") (simp_all add: get_latest_block_def)

lemma is_valid_iff:
  "is_valid H chk b d \<longleftrightarrow>
     calculate_hash H b = hash b \<and> startswith (hash b) (zeros d)
     \<and> (\<forall>tx \<in> set (transactions b). verify chk tx)"
  by (simp add: is_valid_def list_all_iff)

lemma add_block_nonempty:
  assumes "chain bc \<noteq> []"
  shows "add_block H chk fsub bc b =
     (if (\<exists>e \<in> set (chain bc). hash e = hash b) \<or> index b \<noteq> int (length (chain bc))
          \<or> previous_hash b \<noteq> hash (last (chain bc)) \<or> \<not> is_valid H chk b (difficulty bc)
      then Inr (False, bc)
      else Inr (True,
             adjust_difficulty fsub
               (bc\<lparr>chain := chain bc @ [b],
                   transaction_pool :=
                     remove_transactions (transaction_pool bc) (transactions b)\<rparr>)))"
  using assms
  by (simp add: add_block_def is_valid_block_def get_latest_block_nonempty list_ex_iff)

text \<open>
  On an empty chain a block of index 0 has no duplicate and the right index, so
  \<open>_is_valid_block\<close> reads \<open>chain[-1]\<close> and the call raises; a block of another
  index is refused.
\<close>

lemma add_block_empty_chain:
  "chain bc = [] \<Longrightarrow> index b = 0 \<Longrightarrow> add_block H chk fsub bc b = Inl IndexError"
  "chain bc = [] \<Longrightarrow> index b \<noteq> 0 \<Longrightarrow> add_block H chk fsub bc b = Inr (False, bc)"
  by (simp_all add: add_block_def is_valid_block_def get_latest_block_def)

text \<open>
  Claim C2 says that for every chain state \<open>add_block\<close> either returns \<open>False\<close> and
  leaves the chain unchanged or appends the block and returns \<open>True\<close>, and the
  docstring of the method says "True if block was added, False otherwise". On the empty
  chain, the state in which \<open>Blockchain.from_dict\<close> leaves a node built from a
  dictionary without blocks, the call for a well-formed block of index 0 does neither:
  it raises \<open>IndexError\<close>.
\<close>

theorem add_block_raises_on_empty_chain:
  "chain emptied_bc = [] \<and> index demo_block = 0 \<and> length (previous_hash demo_block) = 64
   \<and> add_block demo_sha demo_rsa demo_fsub emptied_bc demo_block = Inl IndexError"
  by (simp add: add_block_def is_valid_block_def get_latest_block_def emptied_bc_def
      demo_block_def)

text \<open>
  On a chain that has a tip the claim holds: \<open>add_block\<close> returns \<open>False\<close> and
  leaves the whole node unchanged when the block's hash is the hash of a block of the
  chain, or its index is not the chain length, or its previous hash is not the hash of
  the tip, or it fails validation at the current difficulty (recomputed hash, leading
  zeros, every transaction verified); otherwise it returns \<open>True\<close> and the block is the
  new tip of the chain.
\<close>

theorem add_block_rejects_or_appends:
  assumes "chain bc \<noteq> []"
  shows "((\<exists>e \<in> set (chain bc). hash e = hash b) \<or> index b \<noteq> int (length (chain bc))
          \<or> previous_hash b \<noteq> hash (last (chain bc))
          \<or> \<not> (calculate_hash H b = hash b \<and> startswith (hash b) (zeros (difficulty bc))
                \<and> (\<forall>tx \<in> set (transactions b). verify chk tx))
         \<longrightarrow> add_block H chk fsub bc b = Inr (False, bc))
      \<and> (\<not> ((\<exists>e \<in> set (chain bc). hash e = hash b) \<or> index b \<noteq> int (length (chain bc))
          \<or> previous_hash b \<noteq> hash (last (chain bc))
          \<or> \<not> (calculate_hash H b = hash b \<and> startswith (hash b) (zeros (difficulty bc))
                \<and> (\<forall>tx \<in> set (transactions b). verify chk tx)))
         \<longrightarrow> (\<exists>bc'. add_block H chk fsub bc b = Inr (True, bc') \<and> chain bc' = chain bc @ [b]
                \<and> last (chain bc') = b))"
  unfolding add_block_nonempty[OF assms] is_valid_iff by auto

text \<open>
  The example node accepts the block mined on its genesis block and refuses its own
  genesis block a second time.
\<close>

lemma hash_demo_genesis: "hash demo_genesis = CHR ''0'' # replicate 62 (CHR ''0'') @ ''a''"
  by (simp add: demo_genesis_def demo_block_def calculate_hash_def block_to_dict_def demo_sha_def)

lemma hash_demo_mined: "hash demo_mined = CHR ''0'' # replicate 62 (CHR ''0'') @ ''b''"
  by (simp add: demo_mined_def demo_unmined_def calculate_hash_def block_to_dict_def demo_sha_def)

lemma demo_mined_fields:
  "index demo_mined = 1" "previous_hash demo_mined = hash demo_genesis"
  "transactions demo_mined = [demo_reward_tx, pooled_system_tx]"
  "calculate_hash demo_sha demo_mined = hash demo_mined"
  "timestamp demo_mined = 1700000001" "nonce demo_mined = 1"
  by (simp_all add: demo_mined_def demo_unmined_def calculate_hash_def block_to_dict_def)

lemma demo_genesis_fields:
  "index demo_genesis = 0" "previous_hash demo_genesis = zeros 64"
  "transactions demo_genesis = []"
  "calculate_hash demo_sha demo_genesis = hash demo_genesis"
  "timestamp demo_genesis = 1234567890" "nonce demo_genesis = 1"
  by (simp_all add: demo_genesis_def demo_block_def calculate_hash_def block_to_dict_def)

lemma startswith_demo_hashes:
  "startswith (hash demo_genesis) (zeros 1)" "startswith (hash demo_mined) (zeros 1)"
  by (simp_all add: hash_demo_genesis hash_demo_mined startswith_def zeros_def)

lemma verify_demo_txs: "verify chk demo_reward_tx" "verify chk pooled_system_tx"
  by (simp_all add: verify_def demo_reward_tx_def pooled_system_tx_def)

lemma demo_bc_fields:
  "chain demo_bc = [demo_genesis]" "difficulty demo_bc = 1" "mining_reward demo_bc = 50"
  "transaction_pool demo_bc = \<lparr>pool_transactions = [pooled_system_tx], max_size = 100\<rparr>"
  by (simp_all add: demo_bc_def)

lemma adjust_difficulty_short:
  "length (chain bc) \<le> 10 \<Longrightarrow> adjust_difficulty fsub bc = bc"
  by (simp add: adjust_difficulty_def Let_def difficulty_adjustment_interval_def)

lemma remove_demo:
  "remove_transactions \<lparr>pool_transactions = [pooled_system_tx], max_size = 100\<rparr>
     [demo_reward_tx, pooled_system_tx]
   = \<lparr>pool_transactions = [pooled_system_tx], max_size = 100\<rparr>"
  by (simp add: remove_transactions_def demo_reward_tx_def pooled_system_tx_def truthy_str_def)

theorem add_block_rejects_or_appends_witness:
  "chain demo_bc \<noteq> []
   \<and> add_block demo_sha demo_rsa demo_fsub demo_bc demo_mined
       = Inr (True, demo_bc\<lparr>chain := [demo_genesis, demo_mined]\<rparr>)
   \<and> add_block demo_sha demo_rsa demo_fsub demo_bc demo_genesis = Inr (False, demo_bc)"
proof -
  have ne: "chain demo_bc \<noteq> []" by (simp add: demo_bc_fields)
  have neq: "hash demo_genesis \<noteq> hash demo_mined"
    by (simp add: hash_demo_genesis hash_demo_mined)
  from add_block_rejects_or_appends[OF ne, of demo_genesis demo_sha demo_rsa]
  have rej: "add_block demo_sha demo_rsa demo_fsub demo_bc demo_genesis = Inr (False, demo_bc)"
    by (simp add: demo_bc_fields)
  from add_block_rejects_or_appends[OF ne, of demo_mined demo_sha demo_rsa] neq
  obtain bc' where bc': "add_block demo_sha demo_rsa demo_fsub demo_bc demo_mined = Inr (True, bc')"
    by (auto simp: demo_bc_fields demo_mined_fields startswith_demo_hashes verify_demo_txs)
  have "add_block demo_sha demo_rsa demo_fsub demo_bc demo_mined
       = Inr (True, demo_bc\<lparr>chain := [demo_genesis, demo_mined]\<rparr>)"
    using bc' neq
    by (simp add: add_block_nonempty[OF ne] demo_bc_fields demo_mined_fields remove_demo
        adjust_difficulty_short split: if_splits) (simp add: demo_bc_def)
  with ne rej show ?thesis by simp
qed

section \<open>Serialisation of blocks\<close>

text \<open>
  Whether a dictionary deserialises, and the exception when it does not, do not depend
  on the clock.
\<close>

lemma tx_from_dict_error:
  "tx_from_dict clk t d = Inl e \<Longrightarrow> tx_from_dict clk' t' d = Inl e"
  by (auto simp: tx_from_dict_def Transaction_init_def Let_def
      split: option.splits if_splits prod.splits sum.splits)

lemma tx_from_dict_errors:
  "tx_from_dict clk t d = Inl e \<Longrightarrow> e = ValueError \<or> e = OverflowError"
  by (auto simp: tx_from_dict_def Transaction_init_def float_of_def Let_def
      split: option.splits if_splits prod.splits sum.splits number.splits)

lemma tx_roundtrip:
  assumes "tx_timestamp tx \<noteq> 0" "signature tx \<noteq> Some []"
    "tx_from_dict clk t (tx_to_dict tx) = Inr r"
  shows "tx_from_dict clk t' (tx_to_dict tx) = Inr (tx, t')"
  using assms
  by (cases "signature tx")
     (auto simp: tx_from_dict_def Transaction_init_def Let_def tx_to_dict_def or_str_def
        truthy_str_def str_of_def timestamp_or_now_def decimal_of_def float_of_def
      split: option.splits if_splits prod.splits)

lemma txs_roundtrip:
  assumes "\<forall>tx \<in> set txs. tx_timestamp tx \<noteq> 0 \<and> signature tx \<noteq> Some []
     \<and> (\<exists>r. tx_from_dict clk t (tx_to_dict tx) = Inr r)"
  shows "txs_from_dicts clk t' (map tx_to_dict txs) = Inr (txs, t')"
  using assms
proof (induction txs)
  case Nil
  then show ?case by simp
next
  case (Cons tx txs)
  then obtain r where "tx_from_dict clk t (tx_to_dict tx) = Inr r"
    "tx_timestamp tx \<noteq> 0" "signature tx \<noteq> Some []" by auto
  then have "tx_from_dict clk t' (tx_to_dict tx) = Inr (tx, t')"
    using tx_roundtrip by blast
  with Cons show ?case by simp
qed

lemma txs_from_dicts_skip:
  assumes "tx_from_dict clk tk d = Inl ValueError"
  shows "txs_from_dicts clk t (ds1 @ d # ds2) = txs_from_dicts clk t (ds1 @ ds2)"
proof (induction ds1 arbitrary: t)
  case Nil
  from tx_from_dict_error[OF assms, of clk t] show ?case by simp
next
  case (Cons a ds1)
  then show ?case by (simp split: sum.splits prod.splits)
qed

lemma txs_from_dicts_returns:
  assumes "\<forall>d \<in> set ds. tx_from_dict clk tk d \<noteq> Inl OverflowError"
  shows "\<exists>r. txs_from_dicts clk t ds = Inr r"
  using assms
proof (induction ds arbitrary: t)
  case Nil
  then show ?case by simp
next
  case (Cons d ds)
  from Cons.prems have rest: "\<forall>d \<in> set ds. tx_from_dict clk tk d \<noteq> Inl OverflowError"
    and here: "tx_from_dict clk tk d \<noteq> Inl OverflowError" by simp_all
  show ?case
  proof (cases "tx_from_dict clk t d")
    case (Inl e)
    from tx_from_dict_error[OF Inl, of clk tk] here have "e \<noteq> OverflowError" by auto
    with tx_from_dict_errors[OF Inl] have "e = ValueError" by simp
    with Inl Cons.IH[OF rest, of t] show ?thesis by simp
  next
    case (Inr p)
    obtain tx t1 where p: "p = (tx, t1)" by (cases p)
    from Cons.IH[OF rest, of t1] obtain r where "txs_from_dicts clk t1 ds = Inr r" ..
    with Inr p show ?thesis by (cases r) simp
  qed
qed

text \<open>
  An entry whose amount is an integer beyond the range of floats is not skipped: the
  \<open>OverflowError\<close> leaves \<open>Block.from_dict\<close>.
\<close>

lemma tx_from_dict_overflow: "tx_from_dict clk t overflow_dict = Inl OverflowError"
  by (simp add: tx_from_dict_def overflow_dict_def or_str_def truthy_str_def decimal_of_def
      float_of_def Let_def)

lemma txs_from_dicts_overflow:
  "txs_from_dicts clk t (overflow_dict # ds) = Inl OverflowError"
  by (simp add: tx_from_dict_overflow)

lemma block_from_dict_present:
  assumes "d_index bd = Some i" "d_timestamp bd = Some ts" "d_previous_hash bd = Some p"
    "d_hash bd = Some h" "d_nonce bd = Some n" "d_transactions bd = Some tds"
  shows "block_from_dict H clk t bd =
     (case txs_from_dicts clk t tds of
        Inl e \<Rightarrow> Inl e
      | Inr (txs, t') \<Rightarrow> Block_init H clk t' i txs p ts n h)"
  using assms by (simp add: block_from_dict_def)

text \<open>
  Claim C10, as stated, fails: \<open>to_dict\<close> leaves out a falsy signature, so a
  transaction whose signature is the empty string comes back with the signature
  \<open>None\<close>, and the block read back differs from the block written.
\<close>

theorem block_dict_roundtrip_counterexample:
  "timestamp empty_signature_block \<noteq> 0
   \<and> transactions empty_signature_block = [empty_signature_tx]
   \<and> tx_timestamp empty_signature_tx \<noteq> 0
   \<and> tx_from_dict demo_clock 0 (tx_to_dict empty_signature_tx)
       = Inr (empty_signature_tx\<lparr>signature := None\<rparr>, 0)
   \<and> block_from_dict demo_sha demo_clock 0 (block_to_dict empty_signature_block)
       = Inr (empty_signature_block
                \<lparr>transactions := [empty_signature_tx\<lparr>signature := None\<rparr>]\<rparr>, 0)
   \<and> empty_signature_block\<lparr>transactions := [empty_signature_tx\<lparr>signature := None\<rparr>]\<rparr>
       \<noteq> empty_signature_block"
  by (simp add: empty_signature_block_def empty_signature_tx_def block_from_dict_def
      block_to_dict_def tx_from_dict_def tx_to_dict_def Transaction_init_def Block_init_def
      timestamp_or_now_def truthy_str_def str_of_def or_str_def Let_def MIN_AMOUNT_def
      MAX_AMOUNT_def decimal_of_def float_of_def)

text \<open>
  Claim C10, amended. Let \<open>b\<close> be a block as the constructor admits it (index not
  negative, previous hash of 64 characters, hash not empty) with a nonzero timestamp,
  whose transactions each have a nonzero timestamp, a signature that is \<open>None\<close> or not
  empty, and a dictionary that deserialises. Then \<open>Block.from_dict(b.to_dict())\<close> is
  \<open>b\<close>, and the clock is not read. A transaction entry whose deserialisation fails
  with \<open>ValueError\<close> is left out: the result is that of the dictionary without the
  entry. And a dictionary with all six keys, an index that is not negative and a
  previous hash of 64 characters gives a block when each of its transaction entries
  either deserialises or fails with \<open>ValueError\<close>.
\<close>

theorem block_dict_roundtrip:
  "(timestamp b \<noteq> 0 \<and> 0 \<le> index b \<and> length (previous_hash b) = 64 \<and> hash b \<noteq> []
      \<and> (\<forall>tx \<in> set (transactions b). tx_timestamp tx \<noteq> 0 \<and> signature tx \<noteq> Some []
             \<and> (\<exists>r. tx_from_dict clk t (tx_to_dict tx) = Inr r))
     \<longrightarrow> block_from_dict H clk t (block_to_dict b) = Inr (b, t))
   \<and> (tx_from_dict clk tk d = Inl ValueError \<longrightarrow>
        block_from_dict H clk t (bd\<lparr>d_transactions := Some (ds1 @ d # ds2)\<rparr>)
          = block_from_dict H clk t (bd\<lparr>d_transactions := Some (ds1 @ ds2)\<rparr>))
   \<and> (d_index bd = Some i \<and> d_timestamp bd = Some ts \<and> d_previous_hash bd = Some p
        \<and> d_hash bd = Some h \<and> d_nonce bd = Some n \<and> d_transactions bd = Some tds
        \<and> 0 \<le> i \<and> length p = 64
        \<and> (\<forall>e \<in> set tds. tx_from_dict clk t e \<noteq> Inl OverflowError)
     \<longrightarrow> (\<exists>r. block_from_dict H clk t bd = Inr r))"
proof (intro conjI impI)
  assume a: "timestamp b \<noteq> 0 \<and> 0 \<le> index b \<and> length (previous_hash b) = 64 \<and> hash b \<noteq> []
      \<and> (\<forall>tx \<in> set (transactions b). tx_timestamp tx \<noteq> 0 \<and> signature tx \<noteq> Some []
             \<and> (\<exists>r. tx_from_dict clk t (tx_to_dict tx) = Inr r))"
  then have txs: "txs_from_dicts clk t (map tx_to_dict (transactions b))
      = Inr (transactions b, t)"
    using txs_roundtrip[of "transactions b" clk t t] by blast
  have "Block_init H clk t (index b) (transactions b) (previous_hash b) (Some (timestamp b))
          (nonce b) (Some (hash b)) = Inr (b, t)"
    using a by (simp add: Block_init_def timestamp_or_now_def truthy_str_def str_of_def Let_def)
  with txs show "block_from_dict H clk t (block_to_dict b) = Inr (b, t)"
    by (simp add: block_from_dict_def block_to_dict_def)
next
  assume "tx_from_dict clk tk d = Inl ValueError"
  from txs_from_dicts_skip[OF this]
  show "block_from_dict H clk t (bd\<lparr>d_transactions := Some (ds1 @ d # ds2)\<rparr>)
          = block_from_dict H clk t (bd\<lparr>d_transactions := Some (ds1 @ ds2)\<rparr>)"
    by (simp add: block_from_dict_def split: option.splits)
next
  assume a: "d_index bd = Some i \<and> d_timestamp bd = Some ts \<and> d_previous_hash bd = Some p
        \<and> d_hash bd = Some h \<and> d_nonce bd = Some n \<and> d_transactions bd = Some tds
        \<and> 0 \<le> i \<and> length p = 64
        \<and> (\<forall>e \<in> set tds. tx_from_dict clk t e \<noteq> Inl OverflowError)"
  then obtain r where "txs_from_dicts clk t tds = Inr r"
    using txs_from_dicts_returns[of tds clk t t] by blast
  with a show "\<exists>r. block_from_dict H clk t bd = Inr r"
    by (cases r)
       (simp add: block_from_dict_present[of bd i ts p h n tds] Block_init_def Let_def
         split: prod.splits)
qed

text \<open>
  The mined example block survives the round trip, also with an entry without amount
  put between its two transactions.
\<close>

lemma tx_from_dict_demo:
  "tx_from_dict clk t (tx_to_dict demo_reward_tx) = Inr (demo_reward_tx, t)"
  "tx_from_dict clk t (tx_to_dict pooled_system_tx) = Inr (pooled_system_tx, t)"
  "tx_from_dict clk t no_amount_dict = Inl ValueError"
  by (simp_all add: demo_reward_tx_def pooled_system_tx_def no_amount_dict_def tx_from_dict_def
      tx_to_dict_def Transaction_init_def timestamp_or_now_def truthy_str_def str_of_def
      or_str_def Let_def MIN_AMOUNT_def MAX_AMOUNT_def decimal_of_def float_of_def)

lemma block_to_dict_demo_mined:
  "(block_to_dict demo_mined)\<lparr>d_transactions :=
       Some ([tx_to_dict demo_reward_tx] @ [tx_to_dict pooled_system_tx])\<rparr>
     = block_to_dict demo_mined"
  by (simp add: block_to_dict_def demo_mined_fields)

theorem block_dict_roundtrip_witness:
  "block_from_dict demo_sha demo_clock 0 (block_to_dict demo_mined) = Inr (demo_mined, 0)
   \<and> tx_from_dict demo_clock 0 no_amount_dict = Inl ValueError
   \<and> block_from_dict demo_sha demo_clock 0
        ((block_to_dict demo_mined)\<lparr>d_transactions :=
           Some ([tx_to_dict demo_reward_tx] @ no_amount_dict # [tx_to_dict pooled_system_tx])\<rparr>)
       = Inr (demo_mined, 0)"
proof -
  note inst = block_dict_roundtrip[where b = demo_mined and clk = demo_clock and t = 0
      and H = demo_sha and tk = 0 and d = no_amount_dict and bd = "block_to_dict demo_mined"
      and ?ds1.0 = "[tx_to_dict demo_reward_tx]" and ?ds2.0 = "[tx_to_dict pooled_system_tx]"]
  have len: "length (previous_hash demo_mined) = 64"
    by (simp add: demo_mined_fields hash_demo_genesis)
  have ne: "hash demo_mined \<noteq> []" by (simp add: hash_demo_mined)
  have ts: "tx_timestamp demo_reward_tx \<noteq> 0 \<and> signature demo_reward_tx \<noteq> Some []
      \<and> tx_timestamp pooled_system_tx \<noteq> 0 \<and> signature pooled_system_tx \<noteq> Some []"
    by (simp add: demo_reward_tx_def pooled_system_tx_def)
  from inst len ne ts
  have rt: "block_from_dict demo_sha demo_clock 0 (block_to_dict demo_mined) = Inr (demo_mined, 0)"
    by (simp add: demo_mined_fields tx_from_dict_demo)
  from inst have "block_from_dict demo_sha demo_clock 0
        ((block_to_dict demo_mined)\<lparr>d_transactions :=
           Some ([tx_to_dict demo_reward_tx] @ no_amount_dict # [tx_to_dict pooled_system_tx])\<rparr>)
       = block_from_dict demo_sha demo_clock 0 (block_to_dict demo_mined)"
    by (simp only: tx_from_dict_demo block_to_dict_demo_mined)
  with rt show ?thesis by (simp add: tx_from_dict_demo)
qed

section \<open>Replacing the chain\<close>

lemma has_duplicate_iff:
  "has_duplicate seen bs \<longleftrightarrow> (\<exists>b \<in> set bs. hash b \<in> seen) \<or> \<not> distinct (map hash bs)"
proof (induction bs arbitrary: seen)
  case Nil
  then show ?case by simp
next
  case (Cons a bs)
  have "has_duplicate seen (a # bs) \<longleftrightarrow>
      hash a \<in> seen \<or> (\<exists>b \<in> set bs. hash b = hash a \<or> hash b \<in> seen)
        \<or> \<not> distinct (map hash bs)"
    by (simp add: Cons.IH)
  also have "\<dots> \<longleftrightarrow> (\<exists>b \<in> set (a # bs). hash b \<in> seen) \<or> \<not> distinct (map hash (a # bs))"
    by (simp add: image_iff) metis
  finally show ?case .
qed

lemma check_blocks_iff:
  "check_blocks H chk d i previous rest \<longleftrightarrow>
     (\<forall>k < length rest. index (rest ! k) = int (i + k)
        \<and> previous_hash (rest ! k) = hash ((previous # rest) ! k)
        \<and> is_valid H chk (rest ! k) d)"
proof (induction rest arbitrary: i previous)
  case Nil
  then show ?case by simp
next
  case (Cons current rest)
  show ?case
    by (auto simp: Cons.IH All_less_Suc2)
qed

lemma is_valid_chain_iff:
  assumes "bs \<noteq> []"
  shows "is_valid_chain H chk d bs =
     Inr (index (bs ! 0) = 0 \<and> previous_hash (bs ! 0) = zeros 64
          \<and> (\<forall>i. 1 \<le> i \<and> i < length bs \<longrightarrow>
                index (bs ! i) = int i \<and> previous_hash (bs ! i) = hash (bs ! (i - 1))
                \<and> is_valid H chk (bs ! i) d))"
proof (cases bs)
  case Nil
  with assms show ?thesis by simp
next
  case (Cons g rest)
  have "(\<forall>k < length rest. index (rest ! k) = int (1 + k)
           \<and> previous_hash (rest ! k) = hash ((g # rest) ! k) \<and> is_valid H chk (rest ! k) d)
      \<longleftrightarrow> (\<forall>i. 1 \<le> i \<and> i < length (g # rest) \<longrightarrow>
                index ((g # rest) ! i) = int i
                \<and> previous_hash ((g # rest) ! i) = hash ((g # rest) ! (i - 1))
                \<and> is_valid H chk ((g # rest) ! i) d)" (is "?L \<longleftrightarrow> ?R")
  proof
    assume l: ?L
    show ?R
    proof (intro allI impI)
      fix i assume i: "1 \<le> i \<and> i < length (g # rest)"
      then obtain k where k: "i = Suc k" "k < length rest" by (cases i) auto
      with l show "index ((g # rest) ! i) = int i
                \<and> previous_hash ((g # rest) ! i) = hash ((g # rest) ! (i - 1))
                \<and> is_valid H chk ((g # rest) ! i) d" by simp
    qed
  next
    assume r: ?R
    show ?L
    proof (intro allI impI)
      fix k assume "k < length rest"
      with r[rule_format, of "Suc k"]
      show "index (rest ! k) = int (1 + k)
           \<and> previous_hash (rest ! k) = hash ((g # rest) ! k) \<and> is_valid H chk (rest ! k) d"
        by simp
    qed
  qed
  with Cons show ?thesis
    by (auto simp: is_valid_chain_def check_blocks_iff)
qed

lemma blocks_from_dicts_length:
  "blocks_from_dicts H clk t ds = Inr (bs, t') \<Longrightarrow> length bs = length ds"
  by (induction ds arbitrary: t bs t') (auto split: sum.splits prod.splits)

lemma replace_chain_eq:
  "replace_chain H chk clk t bc new_chain =
     Inr (case blocks_from_dicts H clk t new_chain of
            Inl e \<Rightarrow> (False, bc)
          | Inr (bs, t') \<Rightarrow>
              if bs \<noteq> [] \<and> distinct (map hash bs)
                 \<and> is_valid_chain H chk (difficulty bc) bs = Inr True
                 \<and> length (chain bc) < length bs
              then (True, bc\<lparr>chain := bs\<rparr>) else (False, bc))"
proof (cases "blocks_from_dicts H clk t new_chain")
  case (Inl e)
  then show ?thesis by (simp add: replace_chain_def)
next
  case (Inr p)
  obtain bs t' where p: "p = (bs, t')" by (cases p)
  from Inr p have len: "length bs = length new_chain" using blocks_from_dicts_length by blast
  show ?thesis
  proof (cases "new_chain = []")
    case True
    with Inr p len show ?thesis by (simp add: replace_chain_def)
  next
    case False
    with len have ne: "bs \<noteq> []" by auto
    from is_valid_chain_iff[OF ne] obtain ok where
      "is_valid_chain H chk (difficulty bc) bs = Inr ok" by blast
    with Inr p False ne show ?thesis
      by (auto simp: replace_chain_def has_duplicate_iff)
  qed
qed

text \<open>
  The example node at one block takes the two-block candidate and refuses the one-block
  candidate, which is valid and as long as its own chain.
\<close>

lemma block_from_dict_demo:
  "block_from_dict demo_sha clk t (block_to_dict demo_genesis) = Inr (demo_genesis, t)"
  "block_from_dict demo_sha clk t (block_to_dict demo_mined) = Inr (demo_mined, t)"
proof -
  have g: "hash demo_genesis \<noteq> []" "length (hash demo_genesis) = 64"
    by (simp_all add: hash_demo_genesis)
  have m: "hash demo_mined \<noteq> []" by (simp add: hash_demo_mined)
  show "block_from_dict demo_sha clk t (block_to_dict demo_genesis) = Inr (demo_genesis, t)"
    using g
    by (simp add: block_from_dict_def block_to_dict_def demo_genesis_fields Block_init_def
        timestamp_or_now_def truthy_str_def str_of_def Let_def)
  show "block_from_dict demo_sha clk t (block_to_dict demo_mined) = Inr (demo_mined, t)"
    using g m
    by (simp add: block_from_dict_def block_to_dict_def demo_mined_fields Block_init_def
        timestamp_or_now_def truthy_str_def str_of_def Let_def tx_from_dict_demo)
qed

lemma is_valid_demo_mined: "is_valid demo_sha chk demo_mined 1"
  by (simp add: is_valid_iff demo_mined_fields startswith_demo_hashes verify_demo_txs)

lemma demo_hashes_differ: "hash demo_genesis \<noteq> hash demo_mined"
  by (simp add: hash_demo_genesis hash_demo_mined)

lemma is_valid_chain_demo: "is_valid_chain demo_sha chk 1 [demo_genesis, demo_mined] = Inr True"
  by (simp add: is_valid_chain_def demo_genesis_fields demo_mined_fields is_valid_demo_mined)

lemma replace_chain_demo:
  "replace_chain demo_sha demo_rsa demo_clock 0 demo_bc
       [block_to_dict demo_genesis, block_to_dict demo_mined]
     = Inr (True, demo_bc\<lparr>chain := [demo_genesis, demo_mined]\<rparr>)"
  "replace_chain demo_sha demo_rsa demo_clock 0 demo_bc [block_to_dict demo_genesis]
     = Inr (False, demo_bc)"
  by (simp_all add: replace_chain_eq block_from_dict_demo demo_hashes_differ demo_bc_fields
      is_valid_chain_demo)

text \<open>
  A candidate with a transaction entry whose amount is an integer beyond the range of
  floats is refused: the \<open>OverflowError\<close> is caught with every other exception of
  the deserialisation.
\<close>

lemma replace_chain_overflow:
  "replace_chain H chk clk t bc (bd\<lparr>d_transactions := Some (overflow_dict # ds)\<rparr> # rest)
     = Inr (False, bc)"
  by (simp add: replace_chain_def block_from_dict_def tx_from_dict_overflow
      split: option.splits)

text \<open>
  The forged candidate: its first block is invalid in its hash, its proof of work and
  its transaction, its second block is valid on top of it, and both survive the round
  trip through their dictionaries.
\<close>

lemma not_64_z:
  assumes "c \<noteq> CHR ''z''"
  shows "c # xs \<noteq> replicate 64 (CHR ''z'')" and "replicate 64 (CHR ''z'') \<noteq> c # xs"
proof -
  show "c # xs \<noteq> replicate 64 (CHR ''z'')"
  proof
    assume "c # xs = replicate 64 (CHR ''z'')"
    then have "hd (c # xs) = hd (replicate 64 (CHR ''z''))" by simp
    with assms show False by simp
  qed
  then show "replicate 64 (CHR ''z'') \<noteq> c # xs" by (rule not_sym)
qed

lemma forged_fields:
  "index forged_genesis = 0" "previous_hash forged_genesis = zeros 64"
  "hash forged_genesis = replicate 64 (CHR ''z'')"
  "transactions forged_genesis = [unsigned_tx]"
  "index forged_next = 1" "previous_hash forged_next = hash forged_genesis"
  "transactions forged_next = []"
  "calculate_hash demo_sha forged_next = hash forged_next"
  "hash forged_next = CHR ''0'' # replicate 62 (CHR ''0'') @ ''b''"
  by (simp_all add: forged_genesis_def forged_next_def forged_unmined_def calculate_hash_def
      block_to_dict_def demo_sha_def)

lemma forged_genesis_invalid:
  "calculate_hash demo_sha forged_genesis \<noteq> hash forged_genesis"
  "\<not> startswith (hash forged_genesis) (zeros 1)"
  "\<not> verify chk unsigned_tx"
  by (simp_all add: forged_genesis_def calculate_hash_def block_to_dict_def demo_sha_def
      startswith_def zeros_def verify_def unsigned_tx_def truthy_str_def not_64_z)

lemma block_from_dict_forged:
  "block_from_dict demo_sha clk t (block_to_dict forged_genesis) = Inr (forged_genesis, t)"
  "block_from_dict demo_sha clk t (block_to_dict forged_next) = Inr (forged_next, t)"
proof -
  have tx: "tx_from_dict clk t (tx_to_dict unsigned_tx) = Inr (unsigned_tx, t)"
    by (simp add: unsigned_tx_def tx_from_dict_def tx_to_dict_def Transaction_init_def
        timestamp_or_now_def truthy_str_def str_of_def or_str_def Let_def MIN_AMOUNT_def
        MAX_AMOUNT_def decimal_of_def float_of_def)
  show "block_from_dict demo_sha clk t (block_to_dict forged_genesis) = Inr (forged_genesis, t)"
    using tx
    by (simp add: block_from_dict_def block_to_dict_def Block_init_def timestamp_or_now_def
        truthy_str_def str_of_def Let_def forged_genesis_def)
  have ne: "calculate_hash demo_sha forged_unmined \<noteq> []"
    by (simp add: calculate_hash_def demo_sha_def)
  then show "block_from_dict demo_sha clk t (block_to_dict forged_next) = Inr (forged_next, t)"
    by (simp add: block_from_dict_def block_to_dict_def Block_init_def timestamp_or_now_def
        truthy_str_def str_of_def Let_def forged_next_def forged_unmined_def)
qed

lemma replace_chain_forged:
  "replace_chain demo_sha demo_rsa demo_clock 0 demo_bc
       [block_to_dict forged_genesis, block_to_dict forged_next]
     = Inr (True, demo_bc\<lparr>chain := [forged_genesis, forged_next]\<rparr>)"
proof -
  have valid: "is_valid_chain demo_sha demo_rsa 1 [forged_genesis, forged_next] = Inr True"
    by (simp add: is_valid_chain_def is_valid_iff forged_fields startswith_def zeros_def)
  have differ: "hash forged_genesis \<noteq> hash forged_next"
    by (simp add: forged_fields not_64_z)
  from valid differ show ?thesis
    by (simp add: replace_chain_eq block_from_dict_forged demo_bc_fields)
qed

text \<open>
  Claim C1, as stated, fails: the validation is not full for the first block of the
  candidate. The example node installs the two-block candidate whose first block has a
  stored hash that is not the hash of its fields, no leading zero at difficulty 1 and an
  unsigned transaction that does not verify.
\<close>

theorem replace_chain_installs_unvalidated_first_block_counterexample:
  "replace_chain demo_sha demo_rsa demo_clock 0 demo_bc
       [block_to_dict forged_genesis, block_to_dict forged_next]
     = Inr (True, demo_bc\<lparr>chain := [forged_genesis, forged_next]\<rparr>)
   \<and> calculate_hash demo_sha forged_genesis \<noteq> hash forged_genesis
   \<and> \<not> startswith (hash forged_genesis) (zeros (difficulty demo_bc))
   \<and> transactions forged_genesis = [unsigned_tx]
   \<and> \<not> verify demo_rsa unsigned_tx
   \<and> \<not> is_valid demo_sha demo_rsa forged_genesis (difficulty demo_bc)"
  by (simp add: replace_chain_forged forged_genesis_invalid forged_fields(4) demo_bc_fields
      is_valid_iff)

text \<open>
  Claim C1, amended. \<open>replace_chain\<close> never raises. It returns \<open>True\<close> exactly when the
  candidate deserialises to a list of blocks with pairwise different hashes that passes
  the sequential validation of \<open>_is_valid_chain\<close> and that is strictly longer than the
  current chain. That validation asks of the first block only that it has index 0 and
  the 64-zero previous hash, and of every later block that it has its position as
  index, the hash of the block before it as previous hash, a stored hash equal to the
  recomputed one with the leading zeros of the difficulty, and only verified
  transactions. Then the stored chain is the deserialised candidate and nothing else
  has changed; in every other case, a candidate of equal length among them, the result
  is \<open>False\<close> and the node is what it was.
\<close>

theorem replace_chain_accepts_iff:
  "(case replace_chain H chk clk t bc new_chain of
      Inl e \<Rightarrow> False
    | Inr (r, bc') \<Rightarrow>
        (r \<longleftrightarrow>
          (\<exists>bs t'. blocks_from_dicts H clk t new_chain = Inr (bs, t')
             \<and> distinct (map hash bs)
             \<and> bs \<noteq> [] \<and> index (bs ! 0) = 0 \<and> previous_hash (bs ! 0) = zeros 64
             \<and> (\<forall>i. 1 \<le> i \<and> i < length bs \<longrightarrow>
                    index (bs ! i) = int i \<and> previous_hash (bs ! i) = hash (bs ! (i - 1))
                    \<and> calculate_hash H (bs ! i) = hash (bs ! i)
                    \<and> startswith (hash (bs ! i)) (zeros (difficulty bc))
                    \<and> (\<forall>tx \<in> set (transactions (bs ! i)). verify chk tx))
             \<and> length (chain bc) < length bs))
        \<and> (r \<longrightarrow> (\<exists>t'. blocks_from_dicts H clk t new_chain = Inr (chain bc', t'))
                  \<and> bc' = bc\<lparr>chain := chain bc'\<rparr>)
        \<and> (\<not> r \<longrightarrow> bc' = bc))"
proof (cases "blocks_from_dicts H clk t new_chain")
  case (Inl e)
  then show ?thesis by (simp add: replace_chain_eq)
next
  case (Inr p)
  obtain bs t' where p: "p = (bs, t')" by (cases p)
  show ?thesis
  proof (cases "bs = []")
    case True
    with Inr p show ?thesis by (simp add: replace_chain_eq)
  next
    case False
    with Inr p show ?thesis
      by (simp add: replace_chain_eq is_valid_chain_iff[OF False] is_valid_iff)
  qed
qed

text \<open>
  Claim C9. Whether \<open>replace_chain\<close> succeeds or fails, the difficulty, the mining
  reward and the transaction pool are what they were before the call; on success the
  installed chain is one that \<open>_is_valid_chain\<close> accepts at the difficulty the node
  had before the call, and on failure the chain is unchanged too.
\<close>

theorem replace_chain_frame:
  "(case replace_chain H chk clk t bc new_chain of
      Inl e \<Rightarrow> False
    | Inr (r, bc') \<Rightarrow>
        difficulty bc' = difficulty bc \<and> mining_reward bc' = mining_reward bc
        \<and> transaction_pool bc' = transaction_pool bc
        \<and> (r \<longrightarrow> is_valid_chain H chk (difficulty bc) (chain bc') = Inr True)
        \<and> (\<not> r \<longrightarrow> chain bc' = chain bc))"
  by (simp add: replace_chain_eq split: sum.splits prod.splits)

text \<open>Both outcomes of the amended claim C1 at the example node.\<close>

theorem replace_chain_accepts_iff_witness:
  "replace_chain demo_sha demo_rsa demo_clock 0 demo_bc
       [block_to_dict demo_genesis, block_to_dict demo_mined]
     = Inr (True, demo_bc\<lparr>chain := [demo_genesis, demo_mined]\<rparr>)
   \<and> blocks_from_dicts demo_sha demo_clock 0
         [block_to_dict demo_genesis, block_to_dict demo_mined]
       = Inr ([demo_genesis, demo_mined], 0)
   \<and> length (chain demo_bc) < length [demo_genesis, demo_mined]
   \<and> replace_chain demo_sha demo_rsa demo_clock 0 demo_bc [block_to_dict demo_genesis]
       = Inr (False, demo_bc)
   \<and> \<not> length (chain demo_bc) < length [demo_genesis]"
  using replace_chain_accepts_iff[where H = demo_sha and chk = demo_rsa and clk = demo_clock and t = 0
      and bc = demo_bc and new_chain = "[block_to_dict demo_genesis, block_to_dict demo_mined]"]
    replace_chain_accepts_iff[where H = demo_sha and chk = demo_rsa and clk = demo_clock and t = 0
      and bc = demo_bc and new_chain = "[block_to_dict demo_genesis]"]
  by (simp add: replace_chain_demo block_from_dict_demo demo_bc_fields)

text \<open>Both outcomes of claim C9 at the example node.\<close>

theorem replace_chain_frame_witness:
  "replace_chain demo_sha demo_rsa demo_clock 0 demo_bc
       [block_to_dict demo_genesis, block_to_dict demo_mined]
     = Inr (True, demo_bc\<lparr>chain := [demo_genesis, demo_mined]\<rparr>)
   \<and> difficulty (demo_bc\<lparr>chain := [demo_genesis, demo_mined]\<rparr>) = 1
   \<and> mining_reward (demo_bc\<lparr>chain := [demo_genesis, demo_mined]\<rparr>) = 50
   \<and> transaction_pool (demo_bc\<lparr>chain := [demo_genesis, demo_mined]\<rparr>)
       = \<lparr>pool_transactions = [pooled_system_tx], max_size = 100\<rparr>
   \<and> is_valid_chain demo_sha demo_rsa (difficulty demo_bc) [demo_genesis, demo_mined] = Inr True
   \<and> replace_chain demo_sha demo_rsa demo_clock 0 demo_bc [block_to_dict demo_genesis]
       = Inr (False, demo_bc)"
  using replace_chain_frame[where H = demo_sha and chk = demo_rsa and clk = demo_clock and t = 0
      and bc = demo_bc and new_chain = "[block_to_dict demo_genesis, block_to_dict demo_mined]"]
    replace_chain_frame[where H = demo_sha and chk = demo_rsa and clk = demo_clock and t = 0
      and bc = demo_bc and new_chain = "[block_to_dict demo_genesis]"]
  by (simp add: replace_chain_demo demo_bc_fields)

section \<open>Mining the pool\<close>

text \<open>
  The example node mines for \<open>miner\<close>: the reward transaction reads the clock first,
  the new block second, and the search stops at nonce 1.
\<close>

lemma Transaction_init_reward_demo:
  "Transaction_init demo_clock 0 ''system'' ''miner'' 50 None None = Inr (demo_reward_tx, 1)"
  by (simp add: Transaction_init_def timestamp_or_now_def demo_clock_def demo_reward_tx_def
      MIN_AMOUNT_def MAX_AMOUNT_def)

lemma Block_init_demo:
  "Block_init demo_sha demo_clock (Suc 0) 1 [demo_reward_tx, pooled_system_tx] (hash demo_genesis)
      None 0 None
     = Inr (demo_unmined\<lparr>nonce := 0,
              hash := calculate_hash demo_sha (demo_unmined\<lparr>nonce := 0\<rparr>)\<rparr>, 2)"
  by (simp add: Block_init_def timestamp_or_now_def demo_clock_def truthy_str_def Let_def
      hash_demo_genesis demo_unmined_def calculate_hash_def block_to_dict_def)

lemma mine_demo_unmined:
  "mine_block demo_sha
      (demo_unmined\<lparr>nonce := 0, hash := calculate_hash demo_sha (demo_unmined\<lparr>nonce := 0\<rparr>)\<rparr>) 1
     = Inr demo_mined"
  by (simp add: mine_block_demo demo_mined_def demo_unmined_def calculate_hash_def
      block_to_dict_def)

lemma add_block_demo:
  "add_block demo_sha chk fsub demo_bc demo_mined
     = Inr (True, demo_bc\<lparr>chain := [demo_genesis, demo_mined]\<rparr>)"
proof -
  have ne: "chain demo_bc \<noteq> []" by (simp add: demo_bc_fields)
  show ?thesis
    using demo_hashes_differ
    by (simp add: add_block_nonempty[OF ne] demo_bc_fields demo_mined_fields remove_demo
        adjust_difficulty_short is_valid_demo_mined)
qed

lemma mine_pending_demo:
  "mine_pending_transactions demo_sha demo_rsa demo_fsub demo_clock 0 demo_bc ''miner''
     = Inr (Some demo_mined,
            demo_bc\<lparr>chain := [demo_genesis, demo_mined],
                    transaction_pool := \<lparr>pool_transactions = [], max_size = 100\<rparr>\<rparr>)"
  by (simp add: mine_pending_transactions_def demo_bc_fields get_transactions_def
      Transaction_init_reward_demo get_latest_block_def Block_init_demo mine_demo_unmined
      add_block_demo clear_transactions_def)

text \<open>
  Claim C5, as stated, fails. The pool of the example node holds an unsigned transaction
  of the system sender. Its signature matches no signed transaction of the mined block
  and the pruning by signature in \<open>add_block\<close> keeps it, but after the successful call
  it is not in the pool: \<open>mine_pending_transactions\<close> clears the pool.
\<close>

theorem mine_clears_unmatched_entry_counterexample:
  "mine_pending_transactions demo_sha demo_rsa demo_fsub demo_clock 0 demo_bc ''miner''
     = Inr (Some demo_mined,
            demo_bc\<lparr>chain := [demo_genesis, demo_mined],
                    transaction_pool := \<lparr>pool_transactions = [], max_size = 100\<rparr>\<rparr>)
   \<and> pool_transactions (transaction_pool demo_bc) = [pooled_system_tx]
   \<and> signature pooled_system_tx = None
   \<and> transactions demo_mined = [demo_reward_tx, pooled_system_tx]
   \<and> signature demo_reward_tx = None
   \<and> pool_transactions
        (remove_transactions (transaction_pool demo_bc) (transactions demo_mined))
       = [pooled_system_tx]
   \<and> pooled_system_tx
        \<notin> set (pool_transactions
                 (transaction_pool
                    (demo_bc\<lparr>chain := [demo_genesis, demo_mined],
                            transaction_pool := \<lparr>pool_transactions = [], max_size = 100\<rparr>\<rparr>)))"
  by (simp add: mine_pending_demo demo_bc_fields demo_mined_fields remove_demo)
     (simp add: pooled_system_tx_def demo_reward_tx_def truthy_str_def)

lemma add_block_True:
  assumes "add_block H chk fsub bc b = Inr (True, bc')"
  shows "chain bc' = chain bc @ [b]"
    and "transaction_pool bc' = remove_transactions (transaction_pool bc) (transactions b)"
    and "mining_reward bc' = mining_reward bc"
  using assms
  by (auto simp: add_block_def split: if_splits sum.splits)

lemma mine_and_append:
  assumes "(case get_latest_block bc of
              Inl e \<Rightarrow> Inl e
            | Inr tip \<Rightarrow>
                (case Block_init H clk t1 (int (length (chain bc))) txs (hash tip)
                        None 0 None of
                   Inl e \<Rightarrow> Inl e
                 | Inr (new_block, t2) \<Rightarrow>
                     (case mine_block H new_block (difficulty bc) of
                        Inl e \<Rightarrow> Inl e
                      | Inr mined \<Rightarrow>
                          (case add_block H chk fsub bc mined of
                             Inl e \<Rightarrow> Inl e
                           | Inr (result, bc') \<Rightarrow>
                               if result
                               then Inr (Some mined,
                                      bc'\<lparr>transaction_pool :=
                                            clear_transactions (transaction_pool bc')\<rparr>)
                               else Inr (None, bc'))))) = Inr (Some blk, bc1)"
  shows "transactions blk = txs
    \<and> (\<exists>bc2. add_block H chk fsub bc blk = Inr (True, bc2)
          \<and> bc1 = bc2\<lparr>transaction_pool := clear_transactions (transaction_pool bc2)\<rparr>)"
proof (cases "get_latest_block bc")
  case (Inl e)
  with assms show ?thesis by simp
next
  case tip: (Inr tip)
  show ?thesis
  proof (cases "Block_init H clk t1 (int (length (chain bc))) txs (hash tip) None 0 None")
    case (Inl e)
    with assms tip show ?thesis by simp
  next
    case (Inr p)
    obtain new_block t2 where p: "p = (new_block, t2)" by (cases p)
    from Inr p have nb: "transactions new_block = txs"
      by (auto simp: Block_init_def Let_def split: prod.splits if_splits)
    show ?thesis
    proof (cases "mine_block H new_block (difficulty bc)")
      case (Inl e)
      with assms tip Inr p show ?thesis by simp
    next
      case mined: (Inr mined)
      from mine_block_fields[OF mined] nb have tm: "transactions mined = txs" by simp
      show ?thesis
      proof (cases "add_block H chk fsub bc mined")
        case (Inl e)
        with assms tip Inr p mined show ?thesis by simp
      next
        case add: (Inr q)
        obtain result bc2 where q: "q = (result, bc2)" by (cases q)
        from assms tip Inr p mined add q
        have "result" "mined = blk"
          "bc1 = bc2\<lparr>transaction_pool := clear_transactions (transaction_pool bc2)\<rparr>"
          by (simp_all split: if_splits)
        with add q tm show ?thesis by simp
      qed
    qed
  qed
qed

text \<open>
  Claim C5, amended. After every successful \<open>mine_pending_transactions\<close> call the pool
  is empty, entries whose signature matches no transaction of the block included: the
  call appends the mined block, which holds every transaction that was in the pool, and
  clears the pool. The capacity of the pool is unchanged.
\<close>

theorem mine_pending_transactions_empties_pool:
  assumes "mine_pending_transactions H chk fsub clk t bc miner_address = Inr (Some blk, bc')"
  shows "pool_transactions (transaction_pool bc') = []
    \<and> max_size (transaction_pool bc') = max_size (transaction_pool bc)
    \<and> chain bc' = chain bc @ [blk]
    \<and> set (pool_transactions (transaction_pool bc)) \<subseteq> set (transactions blk)"
proof -
  have "\<exists>txs bc2. set (pool_transactions (transaction_pool bc)) \<subseteq> set txs
      \<and> transactions blk = txs \<and> add_block H chk fsub bc blk = Inr (True, bc2)
      \<and> bc' = bc2\<lparr>transaction_pool := clear_transactions (transaction_pool bc2)\<rparr>"
  proof (cases "miner_address = ''system''")
    case True
    with assms mine_and_append[where bc = bc and H = H and clk = clk and ?t1.0 = t
        and txs = "pool_transactions (transaction_pool bc)" and chk = chk and blk = blk
        and ?bc1.0 = bc']
    show ?thesis
      by (simp add: mine_pending_transactions_def get_transactions_def)
  next
    case False
    show ?thesis
    proof (cases "Transaction_init clk t ''system'' miner_address (mining_reward bc) None None")
      case (Inl e)
      with assms False show ?thesis
        by (simp add: mine_pending_transactions_def split: if_splits)
    next
      case (Inr p)
      obtain reward_tx t1 where p: "p = (reward_tx, t1)" by (cases p)
      from assms False Inr p
        mine_and_append[where bc = bc and H = H and clk = clk and ?t1.0 = t1
          and txs = "reward_tx # pool_transactions (transaction_pool bc)" and chk = chk
          and blk = blk and ?bc1.0 = bc']
      show ?thesis
        by (simp add: mine_pending_transactions_def get_transactions_def split: if_splits)
           (auto simp: subset_insertI)
    qed
  qed
  then obtain txs bc2 where
    sub: "set (pool_transactions (transaction_pool bc)) \<subseteq> set txs"
    and tb: "transactions blk = txs"
    and add: "add_block H chk fsub bc blk = Inr (True, bc2)"
    and res: "bc' = bc2\<lparr>transaction_pool := clear_transactions (transaction_pool bc2)\<rparr>"
    by blast
  from add_block_True[OF add] res
  have "pool_transactions (transaction_pool bc') = []"
    "max_size (transaction_pool bc') = max_size (transaction_pool bc)"
    "chain bc' = chain bc @ [blk]"
    by (simp_all add: clear_transactions_def remove_transactions_def)
  with sub tb show ?thesis by simp
qed

text \<open>The example node after mining.\<close>

theorem mine_pending_transactions_empties_pool_witness:
  "mine_pending_transactions demo_sha demo_rsa demo_fsub demo_clock 0 demo_bc ''miner''
     = Inr (Some demo_mined,
            demo_bc\<lparr>chain := [demo_genesis, demo_mined],
                    transaction_pool := \<lparr>pool_transactions = [], max_size = 100\<rparr>\<rparr>)
   \<and> pool_transactions (transaction_pool
        (demo_bc\<lparr>chain := [demo_genesis, demo_mined],
                    transaction_pool := \<lparr>pool_transactions = [], max_size = 100\<rparr>\<rparr>)) = []
   \<and> pooled_system_tx \<in> set (transactions demo_mined)"
  using mine_pending_transactions_empties_pool[OF mine_pending_demo]
  by (simp add: mine_pending_demo demo_bc_fields)

section \<open>Admission to the pool\<close>

lemma verify_sig_txs: "verify demo_rsa lower_sig_tx" "verify demo_rsa upper_sig_tx"
  by (simp_all add: verify_def lower_sig_tx_def upper_sig_tx_def truthy_str_def str_of_def
      demo_rsa_def MIN_AMOUNT_def MAX_AMOUNT_def)

text \<open>
  Claim C6, as stated, fails. The pool holds a transaction signed \<open>ab\<close>; the candidate
  has the same sender, recipient, amount and timestamp and the signature \<open>AB\<close>. Their
  identity hashes differ, no pool entry has the identity hash of the candidate, and the
  candidate is rejected as a duplicate.
\<close>

theorem duplicate_despite_different_identity_hash_counterexample:
  "get_hash demo_digest lower_sig_tx = ''ab''
   \<and> get_hash demo_digest upper_sig_tx = ''AB''
   \<and> pool_transactions demo_pool = [lower_sig_tx]
   \<and> get_hash demo_digest lower_sig_tx \<noteq> get_hash demo_digest upper_sig_tx
   \<and> signature lower_sig_tx \<noteq> signature upper_sig_tx
   \<and> verify demo_rsa upper_sig_tx
   \<and> pool_add_transaction demo_rsa demo_clock 0 demo_pool (Inr upper_sig_tx)
       = (Duplicate, demo_pool)"
  by (simp add: verify_sig_txs pool_add_transaction_def demo_pool_def same_transfer_def
      get_hash_def demo_digest_def tx_to_dict_def truthy_str_def str_of_def)
     (simp add: lower_sig_tx_def upper_sig_tx_def)

text \<open>
  Claim C6, amended. \<open>add_transaction\<close> rejects the candidate as a duplicate exactly
  when the pool is below its capacity, the candidate (read from its dictionary, when it
  is given as one) verifies, and some pool entry has the same sender, recipient, amount
  and timestamp as the candidate; signatures and the identity hash are not compared, so
  transactions that differ only in their signatures are duplicates of each other. The
  pool is unchanged by the rejection.
\<close>

theorem add_transaction_duplicate_iff:
  "(fst (pool_add_transaction chk clk t pool (Inr tx)) = Duplicate \<longleftrightarrow>
      int (length (pool_transactions pool)) < max_size pool \<and> verify chk tx
      \<and> (\<exists>e \<in> set (pool_transactions pool).
            sender e = sender tx \<and> recipient e = recipient tx \<and> amount e = amount tx
            \<and> tx_timestamp e = tx_timestamp tx))
   \<and> (fst (pool_add_transaction chk clk t pool (Inl d)) = Duplicate \<longleftrightarrow>
      int (length (pool_transactions pool)) < max_size pool
      \<and> (\<exists>tx t'. tx_from_dict clk t d = Inr (tx, t') \<and> verify chk tx
            \<and> (\<exists>e \<in> set (pool_transactions pool).
                  sender e = sender tx \<and> recipient e = recipient tx \<and> amount e = amount tx
                  \<and> tx_timestamp e = tx_timestamp tx)))
   \<and> (fst (pool_add_transaction chk clk t pool x) = Duplicate
        \<longrightarrow> snd (pool_add_transaction chk clk t pool x) = pool)"
  by (auto simp: pool_add_transaction_def same_transfer_def list_ex_iff
      split: sum.splits prod.splits option.splits if_splits)

text \<open>The candidate signed \<open>AB\<close>, as an object and as a dictionary.\<close>

theorem add_transaction_duplicate_iff_witness:
  "pool_add_transaction demo_rsa demo_clock 0 demo_pool (Inr upper_sig_tx) = (Duplicate, demo_pool)
   \<and> pool_add_transaction demo_rsa demo_clock 0 demo_pool (Inl (tx_to_dict upper_sig_tx))
       = (Duplicate, demo_pool)
   \<and> sender lower_sig_tx = sender upper_sig_tx \<and> recipient lower_sig_tx = recipient upper_sig_tx
   \<and> amount lower_sig_tx = amount upper_sig_tx
   \<and> tx_timestamp lower_sig_tx = tx_timestamp upper_sig_tx"
proof -
  have eqs: "sender lower_sig_tx = sender upper_sig_tx"
    "recipient lower_sig_tx = recipient upper_sig_tx"
    "amount lower_sig_tx = amount upper_sig_tx"
    "tx_timestamp lower_sig_tx = tx_timestamp upper_sig_tx"
    by (simp_all add: lower_sig_tx_def upper_sig_tx_def)
  have fd: "tx_from_dict demo_clock 0 (tx_to_dict upper_sig_tx) = Inr (upper_sig_tx, 0)"
    by (simp add: upper_sig_tx_def tx_from_dict_def tx_to_dict_def Transaction_init_def
        timestamp_or_now_def truthy_str_def str_of_def or_str_def Let_def MIN_AMOUNT_def
        MAX_AMOUNT_def decimal_of_def float_of_def)
  note inst = add_transaction_duplicate_iff[where chk = demo_rsa and clk = demo_clock
      and t = 0 and pool = demo_pool and tx = upper_sig_tx and d = "tx_to_dict upper_sig_tx"]
  have 1: "fst (pool_add_transaction demo_rsa demo_clock 0 demo_pool (Inr upper_sig_tx))
      = Duplicate"
    using inst[where x = "Inr upper_sig_tx"] eqs verify_sig_txs
    by (simp add: demo_pool_def)
  have 2: "fst (pool_add_transaction demo_rsa demo_clock 0 demo_pool
       (Inl (tx_to_dict upper_sig_tx))) = Duplicate"
    using inst[where x = "Inr upper_sig_tx"] eqs verify_sig_txs fd
    by (simp add: demo_pool_def)
  from 1 inst[where x = "Inr upper_sig_tx"]
  have 3: "snd (pool_add_transaction demo_rsa demo_clock 0 demo_pool (Inr upper_sig_tx))
      = demo_pool" by blast
  from 2 inst[where x = "Inl (tx_to_dict upper_sig_tx)"]
  have 4: "snd (pool_add_transaction demo_rsa demo_clock 0 demo_pool
       (Inl (tx_to_dict upper_sig_tx))) = demo_pool" by blast
  from 1 2 3 4 eqs show ?thesis by (simp add: prod_eq_iff)
qed

section \<open>Broadcasting a block\<close>

lemma send_demo:
  "send_message_with_response demo_net k (''10.0.0.1'', 5000) msg
     = Some (JObj [(''type'', JStr ''ack'')])"
  "send_message_with_response demo_net k (''10.0.0.2'', 5000) msg = None"
  "send_message_with_response demo_net k (''10.0.0.3'', 5000) msg
     = Some (JObj [(''type'', JStr ''ack'')])"
  by (simp_all add: send_message_with_response_def demo_net_def)

text \<open>
  The response that the loop sees is a dictionary or \<open>None\<close>, so no round of the loop
  reaches the exception handler: the routing table after a broadcast is the routing
  table before it, whatever the network does.
\<close>

lemma send_message_with_response_obj:
  "send_message_with_response net k addr msg = Some r \<Longrightarrow> \<exists>kvs. r = JObj kvs"
  by (auto simp: send_message_with_response_def split: send_result.splits json.splits)

lemma broadcast_loop_table:
  "snd (broadcast_loop net self msg items k table c) = table"
proof (induction items arbitrary: k c)
  case Nil
  then show ?case by simp
next
  case (Cons item items)
  obtain q addr where item: "item = (q, addr)" by (cases item)
  show ?case
  proof (cases "send_message_with_response net k addr msg")
    case None
    with item Cons.IH show ?thesis by simp
  next
    case (Some r)
    from send_message_with_response_obj[OF Some] obtain kvs where "r = JObj kvs" ..
    with Some item Cons.IH show ?thesis by simp
  qed
qed

text \<open>
  In particular a peer whose connections all fail (time out, are refused, raise, or
  return no data) is still in the routing table after the loop.
\<close>

lemma broadcast_loop_keeps_failed_peer:
  assumes "(p, a) \<in> set table"
    and "\<forall>k a'. (p, a') \<in> set items \<longrightarrow> send_message_with_response net k a' msg = None"
  shows "(p, a) \<in> set (snd (broadcast_loop net self msg items k table c))"
  using assms
proof (induction items arbitrary: k table c)
  case Nil
  then show ?case by simp
next
  case (Cons item items)
  obtain q addr where item: "item = (q, addr)" by (cases item)
  have rest: "\<forall>k a'. (p, a') \<in> set items \<longrightarrow> send_message_with_response net k a' msg = None"
    using Cons.prems(2) by simp
  show ?case
  proof (cases "q = p")
    case True
    with Cons.prems(2) item have "send_message_with_response net k addr msg = None"
      by (metis list.set_intros(1))
    with item Cons.IH[OF Cons.prems(1) rest] show ?thesis by simp
  next
    case False
    with Cons.prems(1) have "(p, a) \<in> set (pop table q)" by (simp add: pop_def)
    from Cons.IH[OF this rest] Cons.IH[OF Cons.prems(1) rest] item show ?thesis
      by (simp split: option.splits json.splits)
  qed
qed

text \<open>
  Claim C4 says that a peer that errors or times out is removed from the routing table
  by the broadcast, and that with three peers of which one is unreachable the result is
  2 and the unreachable peer is gone. The code returns 2 there, and the unreachable
  peer is still in the routing table.
\<close>

theorem broadcast_block_keeps_unreachable_peer:
  "demo_net 1 (''10.0.0.2'', 5000) (NewBlock (block_to_dict demo_mined)) = ConnectionRefused
   \<and> broadcast_block demo_net demo_node demo_mined = (2, demo_node)
   \<and> (''peer2'', (''10.0.0.2'', 5000)) \<in> set (routing_table demo_node)"
  by (simp add: broadcast_block_def demo_node_def send_demo) (simp add: demo_net_def)

end
